theory Spec2Isabelle
  imports Complex_Main "HOL-Library.Product_Lexorder" "HOL-Library.Char_ord" "HOL-Library.List_Lexorder"
begin

section \<open>Tables of the tabular-data engine\<close>

text \<open>
  The program is Python over the pandas data-frame engine. A data frame is embedded as a
  record holding its column header (name and dtype of every column, in order), its rows
  (one list of cells per row, in column order) and, when a column has been made the index
  with \<open>set_index\<close>, the name, dtype and values of that index. The integer labels of a
  default index are not tracked: no operation of the program reads them.

  Numbers are real numbers (the floating-point rounding of the engine is not modelled,
  except in the binning step of the stress matrix, where it decides the result), a
  timestamp is a calendar date (year, month, day) ordered lexicographically, that is
  chronologically, and \<open>Null\<close> stands for NaN, NaT and None.
\<close>

type_synonym date = "nat \<times> nat \<times> nat"

datatype cell = Num real | Date date | Str string | Null

datatype dtype = Number | Datetime | Object

datatype error =
    KeyError string
  | ValueError string
  | TypeError string
  | AttributeError string
  | FileNotFoundError string

record table =
  index :: "(string \<times> dtype \<times> cell list) option"
  columns :: "(string \<times> dtype) list"
  rows :: "cell list list"

type_synonym series = "dtype \<times> cell list"

fun bind_err :: "error + 'a \<Rightarrow> ('a \<Rightarrow> error + 'b) \<Rightarrow> error + 'b" where
  "bind_err (Inl e) f = Inl e"
| "bind_err (Inr x) f = f x"

fun sequence_err :: "(error + 'a) list \<Rightarrow> error + 'a list" where
  "sequence_err [] = Inr []"
| "sequence_err (Inl e # xs) = Inl e"
| "sequence_err (Inr x # xs) = (case sequence_err xs of Inl e \<Rightarrow> Inl e | Inr ys \<Rightarrow> Inr (x # ys))"

fun index_of :: "'a \<Rightarrow> 'a list \<Rightarrow> nat option" where
  "index_of x [] = None"
| "index_of x (y # ys) = (if x = y then Some 0 else map_option Suc (index_of x ys))"

definition col_names :: "table \<Rightarrow> string list" where
  "col_names t = map fst (columns t)"

text \<open>\<open>df.columns.get_loc(n)\<close>: the position of a column, KeyError when there is none.\<close>

definition get_loc :: "table \<Rightarrow> string \<Rightarrow> error + nat" where
  "get_loc t n = (case index_of n (col_names t) of None \<Rightarrow> Inl (KeyError n) | Some j \<Rightarrow> Inr j)"

text \<open>\<open>df[n]\<close>: the column as a series. The index is not reachable this way.\<close>

definition getitem :: "table \<Rightarrow> string \<Rightarrow> error + series" where
  "getitem t n = bind_err (get_loc t n)
     (\<lambda>j. Inr (snd (columns t ! j), map (\<lambda>r. r ! j) (rows t)))"

text \<open>\<open>df[n] = s\<close>: replaces the column in place when it exists, appends it otherwise.\<close>

definition setitem :: "table \<Rightarrow> string \<Rightarrow> series \<Rightarrow> table" where
  "setitem t n s = (case index_of n (col_names t) of
       None \<Rightarrow> t\<lparr>columns := columns t @ [(n, fst s)],
                 rows := map2 (\<lambda>r c. r @ [c]) (rows t) (snd s)\<rparr>
     | Some j \<Rightarrow> t\<lparr>columns := (columns t)[j := (n, fst s)],
                   rows := map2 (\<lambda>r c. r[j := c]) (rows t) (snd s)\<rparr>)"

text \<open>\<open>df[[n1, ..., nk]]\<close>: the named columns in the order asked for; KeyError on the
  first name that is not a column.\<close>

definition project :: "table \<Rightarrow> string list \<Rightarrow> error + table" where
  "project t ns = bind_err (sequence_err (map (get_loc t) ns))
     (\<lambda>js. Inr (t\<lparr>columns := map (\<lambda>j. columns t ! j) js,
                   rows := map (\<lambda>r. map (\<lambda>j. r ! j) js) (rows t)\<rparr>))"

subsection \<open>Series arithmetic\<close>

text \<open>Element-wise arithmetic: a null stays null, a string or a timestamp raises TypeError.\<close>

fun mul_cell :: "real \<Rightarrow> cell \<Rightarrow> error + cell" where
  "mul_cell k (Num x) = Inr (Num (x * k))"
| "mul_cell k Null = Inr Null"
| "mul_cell k (Str s) = Inl (TypeError ''unsupported operand'')"
| "mul_cell k (Date d) = Inl (TypeError ''unsupported operand'')"

fun add_cell :: "cell \<times> cell \<Rightarrow> error + cell" where
  "add_cell (Num x, Num y) = Inr (Num (x + y))"
| "add_cell (Num x, Null) = Inr Null"
| "add_cell (Null, Num y) = Inr Null"
| "add_cell (Null, Null) = Inr Null"
| "add_cell (a, b) = Inl (TypeError ''unsupported operand'')"

text \<open>
  Floor division of a column by a positive constant, \<open>s // k\<close>. The engine derives the
  quotient from the exact remainder of the division, so the result is the floor of the
  exact quotient of the two numbers it is given (for quotients below \<open>2^53\<close> in
  magnitude; larger ones are outside the model). What matters is which number the
  constant is: see \<open>double_tenth\<close> below.
\<close>

fun floordiv_cell :: "real \<Rightarrow> cell \<Rightarrow> error + cell" where
  "floordiv_cell k (Num x) = Inr (Num (of_int \<lfloor>x / k\<rfloor>))"
| "floordiv_cell k Null = Inr Null"
| "floordiv_cell k (Str s) = Inl (TypeError ''unsupported operand'')"
| "floordiv_cell k (Date d) = Inl (TypeError ''unsupported operand'')"

definition series_mul :: "series \<Rightarrow> real \<Rightarrow> error + series" where
  "series_mul s k = bind_err (sequence_err (map (mul_cell k) (snd s))) (\<lambda>cs. Inr (fst s, cs))"

definition series_floordiv :: "series \<Rightarrow> real \<Rightarrow> error + series" where
  "series_floordiv s k =
     bind_err (sequence_err (map (floordiv_cell k) (snd s))) (\<lambda>cs. Inr (fst s, cs))"

definition series_add :: "series \<Rightarrow> series \<Rightarrow> error + series" where
  "series_add a b = bind_err (sequence_err (map add_cell (zip (snd a) (snd b))))
     (\<lambda>cs. Inr (if fst a = Number \<and> fst b = Number then Number else Object, cs))"

subsection \<open>Calendar\<close>

definition leap_year :: "nat \<Rightarrow> bool" where
  "leap_year y = (y mod 4 = 0 \<and> (y mod 100 \<noteq> 0 \<or> y mod 400 = 0))"

definition days_in_month :: "nat \<Rightarrow> nat \<Rightarrow> nat" where
  "days_in_month y m =
     (if m = 2 then (if leap_year y then 29 else 28)
      else if m = 4 \<or> m = 6 \<or> m = 9 \<or> m = 11 then 30 else 31)"

text \<open>The label of a monthly bin (\<open>freq='M'\<close>) is the last day of the month.\<close>

fun month_end :: "date \<Rightarrow> date" where
  "month_end (y, m, d) = (y, m, days_in_month y m)"

fun month_ord :: "date \<Rightarrow> nat" where
  "month_ord (y, m, d) = y * 12 + (m - 1)"

definition month_end_of_ord :: "nat \<Rightarrow> date" where
  "month_end_of_ord n = (n div 12, n mod 12 + 1, days_in_month (n div 12) (n mod 12 + 1))"

subsection \<open>Frame operations used by the feature builder\<close>

definition drop_nth :: "nat \<Rightarrow> 'a list \<Rightarrow> 'a list" where
  "drop_nth j xs = take j xs @ drop (Suc j) xs"

text \<open>
  \<open>pd.to_datetime\<close> on a column the loader was asked to parse as dates: such a column
  holds timestamps and nulls, or, where the loader could not read the text, the strings it
  left behind, on which the conversion raises. A number does not occur there and is
  treated like unreadable text.
\<close>

definition to_datetime_cell :: "cell \<Rightarrow> error + cell" where
  "to_datetime_cell c = (case c of Date d \<Rightarrow> Inr (Date d) | Null \<Rightarrow> Inr Null
                          | _ \<Rightarrow> Inl (ValueError ''unknown datetime string format''))"

text \<open>\<open>t['date'] = pd.to_datetime(t['date'])\<close>\<close>

definition reparse_date :: "table \<Rightarrow> error + table" where
  "reparse_date t =
     bind_err (getitem t ''date'') (\<lambda>s.
     bind_err (sequence_err (map to_datetime_cell (snd s))) (\<lambda>cs.
     Inr (setitem t ''date'' (Datetime, cs))))"

text \<open>\<open>t.set_index(n, inplace=True)\<close>: the column leaves the header and becomes the index.\<close>

definition set_index :: "table \<Rightarrow> string \<Rightarrow> error + table" where
  "set_index t n =
     bind_err (get_loc t n) (\<lambda>j.
     Inr \<lparr>index = Some (n, snd (columns t ! j), map (\<lambda>r. r ! j) (rows t)),
          columns = drop_nth j (columns t),
          rows = map (drop_nth j) (rows t)\<rparr>)"

text \<open>\<open>t.select_dtypes(include=[np.number]).columns\<close>\<close>

definition numeric_columns :: "table \<Rightarrow> string list" where
  "numeric_columns t = map fst (filter (\<lambda>c. snd c = Number) (columns t))"

fun numbers :: "cell list \<Rightarrow> real list" where
  "numbers [] = []"
| "numbers (Num x # cs) = x # numbers cs"
| "numbers (c # cs) = numbers cs"

text \<open>The mean of a group skips nulls and is null for a group without a number.\<close>

definition mean_cell :: "cell list \<Rightarrow> cell" where
  "mean_cell cs = (let xs = numbers cs in
     if xs = [] then Null else Num (sum_list xs / of_nat (length xs)))"

text \<open>
  \<open>groupby([pd.Grouper(freq='M'), 'parcelle_id']).mean().reset_index()\<close> on a frame
  indexed by date: one row per observed pair of month and parcel, sorted by that pair,
  holding the month end, the parcel and the mean of every other column. Rows whose date or
  parcel is null belong to no group. A frame in which \<open>parcelle_id\<close> names two columns
  (it is numeric, so lines 66 and 67 select it twice) is refused by the engine. Parcel
  identifiers are strings, as in the specification's data model; a column of identifiers
  holding anything else than strings and nulls is outside the model and refused.
\<close>

fun group_key :: "cell \<times> cell list \<Rightarrow> nat \<Rightarrow> (date \<times> string) option" where
  "group_key (Date d, r) jp = (case r ! jp of Str s \<Rightarrow> Some (month_end d, s) | _ \<Rightarrow> None)"
| "group_key (c, r) jp = None"

fun is_id_cell :: "cell \<Rightarrow> bool" where
  "is_id_cell (Str s) = True"
| "is_id_cell Null = True"
| "is_id_cell c = False"

definition monthly_mean_by_parcel :: "table \<Rightarrow> error + table" where
  "monthly_mean_by_parcel t =
     (case index t of
        None \<Rightarrow> Inl (TypeError ''Only valid with DatetimeIndex'')
      | Some (n, d, labels) \<Rightarrow>
          if d \<noteq> Datetime then Inl (TypeError ''Only valid with DatetimeIndex'')
          else if length (filter (\<lambda>c. c = ''parcelle_id'') (col_names t)) \<noteq> 1
          then Inl (ValueError ''Grouper for parcelle_id not 1-dimensional'')
          else
            bind_err (get_loc t ''parcelle_id'') (\<lambda>jp.
            if \<not> list_all (\<lambda>r. is_id_cell (r ! jp)) (rows t)
            then Inl (TypeError ''parcelle_id is not a string'')
            else
              let keyed = zip labels (rows t);
                  keys = sort (remdups (List.map_filter (\<lambda>lr. group_key lr jp) keyed));
                  vals = filter (\<lambda>j. j \<noteq> jp) [0..<length (columns t)]
              in Inr \<lparr>index = None,
                      columns = [(n, Datetime), (''parcelle_id'', snd (columns t ! jp))]
                                @ map (\<lambda>j. columns t ! j) vals,
                      rows = map (\<lambda>k. [Date (fst k), Str (snd k)]
                                @ map (\<lambda>j. mean_cell (map (\<lambda>lr. snd lr ! j)
                                         (filter (\<lambda>lr. group_key lr jp = Some k) keyed))) vals) keys\<rparr>))"

text \<open>
  \<open>groupby(pd.Grouper(freq='M')).mean().reset_index()\<close>: with the monthly grouper alone
  every month from the first to the last date has a row, with null means for a month
  without rows.
\<close>

fun label_month :: "cell \<Rightarrow> nat option" where
  "label_month (Date d) = Some (month_ord d)"
| "label_month c = None"

definition monthly_mean :: "table \<Rightarrow> error + table" where
  "monthly_mean t =
     (case index t of
        None \<Rightarrow> Inl (TypeError ''Only valid with DatetimeIndex'')
      | Some (n, d, labels) \<Rightarrow>
          if d \<noteq> Datetime then Inl (TypeError ''Only valid with DatetimeIndex'')
          else
            let keyed = zip labels (rows t);
                months = List.map_filter label_month labels;
                bins = (if months = [] then []
                        else [fold min months (hd months)..<Suc (fold max months (hd months))])
            in Inr \<lparr>index = None,
                    columns = (n, Datetime) # columns t,
                    rows = map (\<lambda>k. Date (month_end_of_ord k)
                              # map (\<lambda>j. mean_cell (map (\<lambda>lr. snd lr ! j)
                                       (filter (\<lambda>lr. label_month (fst lr) = Some k) keyed)))
                                  [0..<length (columns t)]) bins\<rparr>)"

text \<open>
  \<open>t.sort_values(n)\<close> on a date column, nulls last. Rows with equal dates keep their
  order here; the engine's default sort does not promise that, and no statement below
  depends on the order of such rows.
\<close>

fun date_rank :: "cell \<Rightarrow> nat \<times> date" where
  "date_rank (Date d) = (0, d)"
| "date_rank c = (1, (0, 0, 0))"

definition sort_values :: "table \<Rightarrow> string \<Rightarrow> error + table" where
  "sort_values t n =
     bind_err (get_loc t n) (\<lambda>j. Inr (t\<lparr>rows := sort_key (\<lambda>r. date_rank (r ! j)) (rows t)\<rparr>))"

text \<open>The header of a merge: the left columns, then the right columns that are not keys;
  a name that is on both sides and is not a key gets the suffix \<open>_x\<close> or \<open>_y\<close>.\<close>

definition merged_columns ::
  "(string \<times> dtype) list \<Rightarrow> (string \<times> dtype) list \<Rightarrow> string list \<Rightarrow> (string \<times> dtype) list" where
  "merged_columns lcols rcols keys =
     (let others = filter (\<lambda>c. fst c \<notin> set keys) rcols;
          overlap = filter (\<lambda>n. n \<notin> set keys \<and> n \<in> set (map fst others)) (map fst lcols)
      in map (\<lambda>(n, d). (if n \<in> set overlap then n @ ''_x'' else n, d)) lcols
       @ map (\<lambda>(n, d). (if n \<in> set overlap then n @ ''_y'' else n, d)) others)"

definition other_positions :: "table \<Rightarrow> string list \<Rightarrow> nat list" where
  "other_positions t keys = filter (\<lambda>j. fst (columns t ! j) \<notin> set keys) [0..<length (columns t)]"

fun asof_le :: "cell \<Rightarrow> cell \<Rightarrow> bool" where
  "asof_le (Date a) (Date b) = (a \<le> b)"
| "asof_le a b = False"

definition same_dtype :: "table \<Rightarrow> nat \<Rightarrow> table \<Rightarrow> nat \<Rightarrow> bool" where
  "same_dtype l jl r jr = (snd (columns l ! jl) = snd (columns r ! jr))"

text \<open>
  \<open>pd.merge_asof(left, right, on=on)\<close> and \<open>pd.merge_asof(left, right, on=on, by=b)\<close>,
  both frames already sorted by the caller: every left row is kept and extended by the
  last right row whose key is not after its own (and whose \<open>by\<close> cell is equal), or by
  nulls when there is none. Keys of different dtypes and null keys are refused.
\<close>

definition merge_asof :: "table \<Rightarrow> table \<Rightarrow> string \<Rightarrow> string option \<Rightarrow> error + table" where
  "merge_asof left right on by =
     bind_err (get_loc left on) (\<lambda>jl.
     bind_err (get_loc right on) (\<lambda>jr.
     bind_err (case by of None \<Rightarrow> Inr None
               | Some b \<Rightarrow> bind_err (get_loc left b) (\<lambda>bl.
                           bind_err (get_loc right b) (\<lambda>br.
                           if same_dtype left bl right br then Inr (Some (bl, br))
                           else Inl (ValueError ''incompatible merge keys'')))) (\<lambda>bys.
     if \<not> same_dtype left jl right jr then Inl (ValueError ''incompatible merge keys'')
     else if list_ex (\<lambda>l. l ! jl = Null) (rows left)
     then Inl (ValueError ''Merge keys contain null values on left side'')
     else if list_ex (\<lambda>r. r ! jr = Null) (rows right)
     then Inl (ValueError ''Merge keys contain null values on right side'')
     else
       let keys = on # (case by of None \<Rightarrow> [] | Some b \<Rightarrow> [b]);
           others = other_positions right keys
       in Inr \<lparr>index = None,
               columns = merged_columns (columns left) (columns right) keys,
               rows = map (\<lambda>l.
                  let cands = filter (\<lambda>r. (case bys of None \<Rightarrow> True
                                              | Some (bl, br) \<Rightarrow> r ! br = l ! bl)
                                           \<and> asof_le (r ! jr) (l ! jl)) (rows right)
                  in l @ (if cands = [] then replicate (length others) Null
                          else map (\<lambda>j. last cands ! j) others)) (rows left)\<rparr>)))"

text \<open>
  \<open>pd.merge(left, right, how='left', on=key)\<close>: every left row, in order, once for every
  right row with an equal key, extended by that row's other cells; a left row without a
  match is kept once, extended by nulls.
\<close>

definition merge_left :: "table \<Rightarrow> table \<Rightarrow> string \<Rightarrow> error + table" where
  "merge_left left right key =
     bind_err (get_loc left key) (\<lambda>jl.
     bind_err (get_loc right key) (\<lambda>jr.
     if \<not> same_dtype left jl right jr
     then Inl (ValueError ''You are trying to merge on different dtypes'')
     else
       let others = other_positions right [key]
       in Inr \<lparr>index = None,
               columns = merged_columns (columns left) (columns right) [key],
               rows = concat (map (\<lambda>l.
                  let ms = filter (\<lambda>r. r ! jr = l ! jl) (rows right)
                  in if ms = [] then [l @ replicate (length others) Null]
                     else map (\<lambda>r. l @ map (\<lambda>j. r ! j) others) ms) (rows left))\<rparr>))"

text \<open>\<open>t.dropna()\<close>: the rows without a null.\<close>

definition dropna :: "table \<Rightarrow> table" where
  "dropna t = t\<lparr>index := map_option (\<lambda>(n, d, labels).
                    (n, d, map fst (filter (\<lambda>lr. Null \<notin> set (snd lr)) (zip labels (rows t))))) (index t),
               rows := filter (\<lambda>r. Null \<notin> set r) (rows t)\<rparr>"

text \<open>
  The scaler held by the manager is an object of the preprocessing library. It is
  embedded as the function it computes: from the values of a column, the transform of one
  value. \<open>StandardScaler\<close> is the library's default, the z-score with the population
  standard deviation, a zero deviation being replaced by one. The statistics the object
  keeps after a fit are not modelled.
\<close>

type_synonym scaler = "real list \<Rightarrow> real \<Rightarrow> real"

definition col_mean :: "real list \<Rightarrow> real" where
  "col_mean xs = sum_list xs / of_nat (length xs)"

definition col_scale :: "real list \<Rightarrow> real" where
  "col_scale xs = (let v = sum_list (map (\<lambda>x. (x - col_mean xs)\<^sup>2) xs) / of_nat (length xs)
                   in if v = 0 then 1 else sqrt v)"

definition StandardScaler :: scaler where
  "StandardScaler xs x = (x - col_mean xs) / col_scale xs"

fun is_num :: "cell \<Rightarrow> bool" where
  "is_num (Num x) = True"
| "is_num c = False"

fun transform_cell :: "scaler \<Rightarrow> real list \<Rightarrow> cell \<Rightarrow> cell" where
  "transform_cell sc xs (Num x) = Num (sc xs x)"
| "transform_cell sc xs c = c"

text \<open>
  \<open>t[numeric_cols] = scaler.fit_transform(t[numeric_cols])\<close>, lines 107 and 108. The
  library refuses an array without rows, without columns, or with a cell that is not a
  number.
\<close>

definition fit_transform :: "scaler \<Rightarrow> table \<Rightarrow> error + table" where
  "fit_transform sc t =
     (let js = filter (\<lambda>j. snd (columns t ! j) = Number) [0..<length (columns t)]
      in if rows t = [] then Inl (ValueError ''Found array with 0 sample(s)'')
         else if js = [] then Inl (ValueError ''Found array with 0 feature(s)'')
         else if list_ex (\<lambda>r. list_ex (\<lambda>j. \<not> is_num (r ! j)) js) (rows t)
         then Inl (ValueError ''could not convert to float'')
         else Inr (t\<lparr>rows := map (\<lambda>r. map (\<lambda>(j, c).
                 if snd (columns t ! j) = Number
                 then transform_cell sc (numbers (map (\<lambda>r'. r' ! j) (rows t))) c
                 else c) (enumerate 0 r)) (rows t)\<rparr>))"

section \<open>The data manager (data_manager.py)\<close>

text \<open>
  The manager holds the four raw tables (\<open>None\<close> before \<open>load_data\<close>) and the scaler.
  Log records keep the level, the fixed part of the message (without accents and quotes)
  and the value interpolated into it.
\<close>

record manager =
  monitoring_data :: "table option"
  weather_data :: "table option"
  soil_data :: "table option"
  yield_history :: "table option"
  scaler :: scaler

datatype log_record =
    Log_error string error
  | Log_warning string
  | Log_info string "string list"

definition held :: "table option \<Rightarrow> error + table" where
  "held t = (case t of None \<Rightarrow> Inl (TypeError ''NoneType object is not subscriptable'')
             | Some x \<Rightarrow> Inr x)"

subsection \<open>The temporal consistency check\<close>

text \<open>
  \<open>_verify_temporal_consistency\<close>, lines 39 to 49. \<open>index.is_monotonic\<close> holds for a
  default index, and for a date index when its dates never decrease and none is null.
  No method of the program calls this check.
\<close>

definition is_monotonic :: "table \<Rightarrow> bool" where
  "is_monotonic t = (case index t of None \<Rightarrow> True
     | Some (n, d, labels) \<Rightarrow> list_all (\<lambda>c. c \<noteq> Null) labels \<and> sorted (map date_rank labels))"

definition attr_index :: "table option \<Rightarrow> error + table" where
  "attr_index t = (case t of None \<Rightarrow> Inl (AttributeError ''NoneType object has no attribute index'')
                   | Some x \<Rightarrow> Inr x)"

definition verify_temporal_consistency :: "manager \<Rightarrow> error + unit" where
  "verify_temporal_consistency m =
     bind_err (attr_index (monitoring_data m)) (\<lambda>mon.
     if \<not> is_monotonic mon
     then Inl (ValueError ''Les donnees de monitoring ne sont pas triees par date.'')
     else bind_err (attr_index (weather_data m)) (\<lambda>wea.
     if \<not> is_monotonic wea
     then Inl (ValueError ''Les donnees meteorologiques ne sont pas triees par date.'')
     else bind_err (attr_index (yield_history m)) (\<lambda>yh.
     if \<not> is_monotonic yh
     then Inl (ValueError ''Les donnees historiques de rendements ne sont pas triees par date.'')
     else Inr ())))"

subsection \<open>Feature preparation\<close>

text \<open>Lines 65 to 87: the monthly aggregates of the tables held after lines 58 to 63,
  their as-of merge and the left join with the soil table.\<close>

definition merge_soil :: "manager \<Rightarrow> error + table" where
  "merge_soil m =
     bind_err (held (monitoring_data m)) (\<lambda>mon.
     bind_err (project mon (numeric_columns mon @ [''parcelle_id''])) (\<lambda>mon_sel.
     bind_err (monthly_mean_by_parcel mon_sel) (\<lambda>monitoring_monthly.
     bind_err (held (weather_data m)) (\<lambda>wea.
     bind_err (project wea (numeric_columns wea)) (\<lambda>wea_sel.
     bind_err (monthly_mean wea_sel) (\<lambda>weather_monthly.
     bind_err (sort_values monitoring_monthly ''date'') (\<lambda>l1.
     bind_err (sort_values weather_monthly ''date'') (\<lambda>r1.
     bind_err (merge_asof l1 r1 ''date'' None) (\<lambda>combined1.
     bind_err (held (soil_data m)) (\<lambda>soil.
     merge_left combined1 soil ''parcelle_id''))))))))))"

text \<open>Lines 89 to 98: the as-of merge with the yield history when that table has the
  column \<open>rendement_estime\<close>, the KeyError of line 98 otherwise.\<close>

definition yield_join :: "table \<Rightarrow> table \<Rightarrow> error + table" where
  "yield_join combined_data yh =
     (if ''rendement_estime'' \<in> set (col_names yh)
      then bind_err (sort_values combined_data ''date'') (\<lambda>l2.
           bind_err (project yh [''date'', ''parcelle_id'', ''rendement_estime'']) (\<lambda>ysel.
           bind_err (sort_values ysel ''date'') (\<lambda>r2.
           merge_asof l2 r2 ''date'' (Some ''parcelle_id''))))
      else Inl (KeyError ''rendement_estime n est pas present dans yield_history''))"

text \<open>Lines 100 to 102: the check that the merged table has the yield column.\<close>

definition check_rendement :: "table \<Rightarrow> error + table" where
  "check_rendement combined_data =
     (if ''rendement_estime'' \<notin> set (col_names combined_data)
      then Inl (KeyError ''rendement_estime n est pas present apres la fusion.'')
      else Inr combined_data)"

text \<open>Lines 65 to 102 together.\<close>

definition merge_tables :: "manager \<Rightarrow> error + table" where
  "merge_tables m =
     bind_err (merge_soil m) (\<lambda>combined_data.
     bind_err (held (yield_history m)) (\<lambda>yh.
     bind_err (yield_join combined_data yh) check_rendement))"

text \<open>Lines 104 to 108: the null drop and the scaling.\<close>

definition merge_features :: "manager \<Rightarrow> error + table" where
  "merge_features m =
     bind_err (merge_tables m) (\<lambda>combined_data. fit_transform (scaler m) (dropna combined_data))"

text \<open>Lines 58 to 63 replace held tables one after the other; an exception leaves the
  replacements made before it.\<close>

definition step :: "(manager \<Rightarrow> table option) \<Rightarrow> ((table option \<Rightarrow> table option) \<Rightarrow> manager \<Rightarrow> manager)
     \<Rightarrow> (table \<Rightarrow> error + table) \<Rightarrow> manager \<Rightarrow> (error + unit) \<times> manager" where
  "step field upd f m =
     (case bind_err (held (field m)) f of
        Inl e \<Rightarrow> (Inl e, m)
      | Inr t \<Rightarrow> (Inr (), upd (\<lambda>_. Some t) m))"

fun steps :: "(manager \<Rightarrow> (error + unit) \<times> manager) list \<Rightarrow> manager \<Rightarrow> (error + unit) \<times> manager" where
  "steps [] m = (Inr (), m)"
| "steps (f # fs) m = (case f m of (Inl e, m') \<Rightarrow> (Inl e, m') | (Inr u, m') \<Rightarrow> steps fs m')"

text \<open>Lines 58 to 63: the three date columns are parsed again, then the monitoring and
  the weather table are indexed by date.\<close>

definition reindex_dates :: "manager \<Rightarrow> (error + unit) \<times> manager" where
  "reindex_dates =
     steps [step monitoring_data monitoring_data_update reparse_date,
            step weather_data weather_data_update reparse_date,
            step yield_history yield_history_update reparse_date,
            step monitoring_data monitoring_data_update (\<lambda>t. set_index t ''date''),
            step weather_data weather_data_update (\<lambda>t. set_index t ''date'')]"

text \<open>The body of the \<open>try\<close> of \<open>prepare_features\<close>: its result and the manager left behind.\<close>

definition prepare_body :: "manager \<Rightarrow> (error + table) \<times> manager" where
  "prepare_body m =
     (case reindex_dates m of
        (Inl e, m') \<Rightarrow> (Inl e, m')
      | (Inr u, m') \<Rightarrow> (merge_features m', m'))"

text \<open>\<open>prepare_features\<close>, lines 51 to 115: the handler logs the exception and raises it
  again; a success logs the header of the result.\<close>

definition prepare_features :: "manager \<Rightarrow> (error + table) \<times> manager \<times> log_record list" where
  "prepare_features m =
     (case prepare_body m of
        (Inl e, m') \<Rightarrow>
          (Inl e, m', [Log_error ''Erreur lors de la preparation des caracteristiques'' e])
      | (Inr t, m') \<Rightarrow>
          (Inr t, m', [Log_info ''Colonnes disponibles apres fusion'' (col_names t)]))"

subsection \<open>Analytics helpers\<close>

text \<open>
  \<open>calculate_risk_metrics(data)\<close>, lines 152 to 159. The right-hand side of line 158 is
  evaluated left to right; the assignment writes into the caller's frame, so the function
  returns its result together with the frame the caller holds afterwards. An exception
  raised on line 158 leaves the frame as it was; one raised by the projection of line 159
  leaves it with the new column.
\<close>

definition risk_score :: "table \<Rightarrow> error + series" where
  "risk_score data =
     bind_err (getitem data ''stress_hydrique'') (\<lambda>s.
     bind_err (series_mul s (5 / 10)) (\<lambda>s5.
     bind_err (getitem data ''biomasse_estimee'') (\<lambda>b.
     bind_err (series_mul b (3 / 10)) (\<lambda>b3.
     series_add s5 b3))))"

definition calculate_risk_metrics :: "table \<Rightarrow> (error + table) \<times> table" where
  "calculate_risk_metrics data =
     (case risk_score data of
        Inl e \<Rightarrow> (Inl e, data)
      | Inr s \<Rightarrow>
          (let data' = setitem data ''risk_score'' s
           in (project data' [''parcelle_id'', ''date'', ''risk_score''], data')))"

section \<open>Dashboard (dashboard.py)\<close>

subsection \<open>Stress matrix: the binning step\<close>

text \<open>
  In this step the rounding of binary floating point decides the bucket of a value, so the
  numbers are taken as the engine has them, in double precision. The literal \<open>0.1\<close> is
  the double nearest to one tenth, which lies slightly above it. A product is the exact
  product rounded to the nearest double, ties to the even significand: the magnitude is
  scaled by powers of two until it lies between \<open>2^52\<close> and \<open>2^53\<close>, rounded to an
  integer there and scaled back. The count of scalings is bounded by a number beyond the
  exponent range of doubles; subnormal results and overflow are not modelled.
\<close>

definition double_tenth :: real where
  "double_tenth = 3602879701896397 / 36028797018963968"

definition round_half_even :: "real \<Rightarrow> int" where
  "round_half_even y =
     (let f = \<lfloor>y\<rfloor>; r = y - of_int f
      in if r < 1 / 2 then f else if 1 / 2 < r then f + 1 else if even f then f else f + 1)"

fun round_mantissa :: "nat \<Rightarrow> real \<Rightarrow> real" where
  "round_mantissa 0 x = x"
| "round_mantissa (Suc n) x =
     (if 2 ^ 53 \<le> x then 2 * round_mantissa n (x / 2)
      else if x < 2 ^ 52 then round_mantissa n (2 * x) / 2
      else of_int (round_half_even x))"

definition round_double :: "real \<Rightarrow> real" where
  "round_double x = (if x = 0 then 0 else sgn x * round_mantissa 2200 \<bar>x\<bar>)"

fun fmul_cell :: "real \<Rightarrow> cell \<Rightarrow> error + cell" where
  "fmul_cell k (Num x) = Inr (Num (round_double (x * k)))"
| "fmul_cell k Null = Inr Null"
| "fmul_cell k (Str s) = Inl (TypeError ''unsupported operand'')"
| "fmul_cell k (Date d) = Inl (TypeError ''unsupported operand'')"

definition series_fmul :: "series \<Rightarrow> real \<Rightarrow> error + series" where
  "series_fmul s k = bind_err (sequence_err (map (fmul_cell k) (snd s))) (\<lambda>cs. Inr (fst s, cs))"

text \<open>
  \<open>create_stress_matrix\<close>, lines 198 to 203: the guard on the two columns and the two
  assignments that add \<open>temp_bin\<close> and \<open>stress_bin\<close> to the held feature table. The result
  is an exception (caught by the method's handler), \<open>None\<close> for the early return of line
  200, or the feature table after both assignments. The counting and the chart that follow
  are outside the model.
\<close>

definition create_stress_matrix_bins :: "table option \<Rightarrow> error + table option" where
  "create_stress_matrix_bins features =
     (case features of
        None \<Rightarrow> Inl (AttributeError ''columns'')
      | Some f \<Rightarrow>
          if ''temperature'' \<notin> set (col_names f) \<or> ''stress_hydrique'' \<notin> set (col_names f)
          then Inr None
          else
            bind_err (getitem f ''temperature'') (\<lambda>t.
            bind_err (series_floordiv t 5) (\<lambda>q.
            bind_err (series_fmul q 5) (\<lambda>tb.
            let f1 = setitem f ''temp_bin'' tb in
            bind_err (getitem f1 ''stress_hydrique'') (\<lambda>s.
            bind_err (series_floordiv s double_tenth) (\<lambda>q'.
            bind_err (series_fmul q' double_tenth) (\<lambda>sb.
            Inr (Some (setitem f1 ''stress_bin'' sb)))))))))"

subsection \<open>Selection callbacks\<close>

text \<open>
  The yield and the NDVI chart each register a JavaScript callback on the selector
  (lines 102 to 130 and 165 to 187). Its arguments are the chart's source, the full source
  and the selector; the data of a source is an object from column names to arrays, here an
  association list in key order. A callback either throws (dereferencing \<open>null\<close> or
  \<open>undefined\<close>), or finishes with the new data of the chart's source. Reading an array past
  its end gives \<open>undefined\<close>, written \<open>Null\<close>. The comparator of the yield callback
  subtracts two \<open>Date\<close> objects; when one of them is not a valid date the difference is NaN
  and the order that \<open>Array.prototype.sort\<close> produces is left to the engine: the model
  then gives \<open>Unspecified\<close>. On valid dates the sort is stable. The two sources are taken
  to be distinct objects.
\<close>

type_synonym cds = "(string \<times> cell list) list"

datatype 'a outcome = Threw error | Unspecified | Done 'a

definition js_nth :: "cell list \<Rightarrow> nat \<Rightarrow> cell" where
  "js_nth xs i = (if i < length xs then xs ! i else Null)"

fun time_value :: "cell \<Rightarrow> date option" where
  "time_value (Date d) = Some d"
| "time_value c = None"

definition date_at :: "cell list \<Rightarrow> nat \<Rightarrow> date" where
  "date_at dates i = the (time_value (js_nth dates i))"

text \<open>The loop over \<open>full['parcelle_id']\<close> that collects the positions equal to the choice.\<close>

definition matching :: "cell list \<Rightarrow> string \<Rightarrow> nat list" where
  "matching pids choix = filter (\<lambda>i. pids ! i = Str choix) [0..<length pids]"

text \<open>The loops that empty every array of the chart's source and push, for every key of
  that source, the cells of the full source at the collected positions. \<open>full[key]\<close> is
  dereferenced only when there is a position to push.\<close>

definition push_rows :: "cds \<Rightarrow> cds \<Rightarrow> nat list \<Rightarrow> cds outcome" where
  "push_rows full filt indices =
     (if indices = [] then Done (map (\<lambda>(k, c). (k, [])) filt)
      else if \<exists>k \<in> set (map fst filt). map_of full k = None
      then Threw (TypeError ''undefined'')
      else Done (map (\<lambda>(k, c). (k, map (js_nth (the (map_of full k))) indices)) filt))"

text \<open>\<open>indices.sort(...)\<close> of line 120; the comparator runs only on two or more positions.\<close>

definition sort_indices :: "cds \<Rightarrow> nat list \<Rightarrow> nat list outcome" where
  "sort_indices full indices =
     (if length indices < 2 then Done indices
      else (case map_of full ''date'' of
        None \<Rightarrow> Threw (TypeError ''undefined'')
      | Some dates \<Rightarrow>
          if \<exists>i \<in> set indices. time_value (js_nth dates i) = None then Unspecified
          else Done (sort_key (date_at dates) indices)))"

definition callback_yield :: "cds option \<Rightarrow> cds option \<Rightarrow> string \<Rightarrow> cds outcome" where
  "callback_yield full_source source choix =
     (case full_source of None \<Rightarrow> Threw (TypeError ''null'') | Some full \<Rightarrow>
     (case source of None \<Rightarrow> Threw (TypeError ''null'') | Some filt \<Rightarrow>
     (case map_of full ''parcelle_id'' of None \<Rightarrow> Threw (TypeError ''undefined'') | Some pids \<Rightarrow>
     (case sort_indices full (matching pids choix) of
        Threw e \<Rightarrow> Threw e
      | Unspecified \<Rightarrow> Unspecified
      | Done indices \<Rightarrow> push_rows full filt indices))))"

definition callback_ndvi :: "cds option \<Rightarrow> cds option \<Rightarrow> string \<Rightarrow> cds outcome" where
  "callback_ndvi full_source source choix =
     (case full_source of None \<Rightarrow> Threw (TypeError ''null'') | Some full \<Rightarrow>
     (case source of None \<Rightarrow> Threw (TypeError ''null'') | Some filt \<Rightarrow>
     (case map_of full ''parcelle_id'' of None \<Rightarrow> Threw (TypeError ''undefined'') | Some pids \<Rightarrow>
        push_rows full filt (matching pids choix))))"

subsection \<open>Loading and the data sources\<close>

text \<open>
  \<open>load_data\<close> (data_manager.py, lines 20 to 28) reads four files at fixed paths. What
  each read gives, a table or the exception of the reader, is the environment of the
  model; the assignments made before a failing read stay.
\<close>

record files =
  monitoring_cultures :: "error + table"
  meteo_detaillee :: "error + table"
  sols :: "error + table"
  historique_rendements :: "error + table"

definition load_data :: "files \<Rightarrow> manager \<Rightarrow> (error + unit) \<times> manager" where
  "load_data fs m =
     (case monitoring_cultures fs of Inl e \<Rightarrow> (Inl e, m) | Inr t1 \<Rightarrow>
     (let m1 = m\<lparr>monitoring_data := Some t1\<rparr> in
      case meteo_detaillee fs of Inl e \<Rightarrow> (Inl e, m1) | Inr t2 \<Rightarrow>
     (let m2 = m1\<lparr>weather_data := Some t2\<rparr> in
      case sols fs of Inl e \<Rightarrow> (Inl e, m2) | Inr t3 \<Rightarrow>
     (let m3 = m2\<lparr>soil_data := Some t3\<rparr> in
      case historique_rendements fs of Inl e \<Rightarrow> (Inl e, m3) | Inr t4 \<Rightarrow>
        (Inr (), m3\<lparr>yield_history := Some t4\<rparr>)))))"

text \<open>
  The dashboard object. \<open>ColumnDataSource(df)\<close> turns a frame into named arrays; the
  array of row labels it adds is left out, since labels are not tracked.
\<close>

record dashboard =
  data_manager :: manager
  full_yield_source :: "cds option"
  full_ndvi_source :: "cds option"
  yield_source :: "cds option"
  ndvi_source :: "cds option"
  stress_source :: "cds option"
  full_stress_source :: "cds option"
  features :: "table option"

definition ColumnDataSource :: "table \<Rightarrow> cds" where
  "ColumnDataSource t = map (\<lambda>(j, c). (fst c, map (\<lambda>r. r ! j) (rows t))) (enumerate 0 (columns t))"

definition frame_empty :: "table \<Rightarrow> bool" where
  "frame_empty t = (rows t = [] \<or> columns t = [])"

definition required_columns :: "string list" where
  "required_columns = [''parcelle_id'', ''date'', ''rendement_estime'', ''ndvi'']"

text \<open>The body of the \<open>try\<close> of \<open>create_data_sources\<close>, lines 37 to 62: its outcome, the
  dashboard it leaves and the records it logs.\<close>

definition create_data_sources_body ::
  "files \<Rightarrow> dashboard \<Rightarrow> (error + unit) \<times> dashboard \<times> log_record list" where
  "create_data_sources_body fs d =
     (case load_data fs (data_manager d) of
        (Inl e, m1) \<Rightarrow> (Inl e, d\<lparr>data_manager := m1\<rparr>, [])
      | (Inr u, m1) \<Rightarrow>
     (case prepare_features m1 of
        (Inl e, m2, logs) \<Rightarrow> (Inl e, d\<lparr>data_manager := m2\<rparr>, logs)
      | (Inr t, m2, logs) \<Rightarrow>
     (let d1 = d\<lparr>data_manager := m2, features := Some t\<rparr> in
      if \<not> set required_columns \<subseteq> set (col_names t)
      then (Inl (ValueError ''Colonnes manquantes''), d1, logs)
      else
       (case bind_err (project t [''parcelle_id'', ''date'', ''rendement_estime''])
                (\<lambda>y. bind_err (project t [''parcelle_id'', ''date'', ''ndvi''])
                (\<lambda>n. Inr (dropna y, dropna n))) of
          Inl e \<Rightarrow> (Inl e, d1, logs)
        | Inr (yield_data, ndvi_data) \<Rightarrow>
           (let d2 = d1\<lparr>yield_source :=
                       (if frame_empty yield_data then None else Some (ColumnDataSource yield_data))\<rparr>;
                l2 = (if frame_empty yield_data
                      then [Log_warning ''Les donnees de rendement sont vides.''] else []);
                d3 = d2\<lparr>ndvi_source :=
                       (if frame_empty ndvi_data then None else Some (ColumnDataSource ndvi_data))\<rparr>;
                l3 = (if frame_empty ndvi_data
                      then [Log_warning ''Les donnees NDVI sont vides.''] else [])
            in (Inr (), d3,
                logs @ l2 @ l3 @ [Log_info ''Sources de donnees preparees avec succes.'' []]))))))"

text \<open>\<open>create_data_sources\<close>, lines 32 to 67, with its handler. The first component is
  what reaches the caller: \<open>Inl\<close> would be an exception leaving the method.\<close>

definition create_data_sources ::
  "files \<Rightarrow> dashboard \<Rightarrow> (error + unit) \<times> dashboard \<times> log_record list" where
  "create_data_sources fs d =
     (case create_data_sources_body fs d of
        (Inl e, d', logs) \<Rightarrow>
          (Inr (), d'\<lparr>yield_source := None, ndvi_source := None\<rparr>,
           logs @ [Log_error ''Erreur lors de la preparation des sources de donnees'' e])
      | (Inr u, d', logs) \<Rightarrow> (Inr (), d', logs))"

text \<open>\<open>AgriculturalDashboard.__init__\<close>, lines 22 to 30.\<close>

definition dashboard_init ::
  "files \<Rightarrow> manager \<Rightarrow> (error + unit) \<times> dashboard \<times> log_record list" where
  "dashboard_init fs mgr =
     create_data_sources fs
       \<lparr>data_manager = mgr, full_yield_source = None, full_ndvi_source = None,
        yield_source = None, ndvi_source = None, stress_source = None,
        full_stress_source = None, features = None\<rparr>"


section \<open>Vocabulary of the statements\<close>

text \<open>
  The functions below do not embed code: they are the words of the specification
  (the linear combination of the risk score, the bucket of a value as the engine's
  arithmetic gives it) and the side
  conditions of the theorems (a cell of a numeric column, a table whose rows all have one
  cell per column), followed by the concrete tables the theorems are evaluated on.
\<close>

fun risk_cell :: "cell \<Rightarrow> cell \<Rightarrow> cell" where
  "risk_cell (Num s) (Num b) = Num (0.5 * s + 0.3 * b)"
| "risk_cell a b = Null"

fun numeric_cell :: "cell \<Rightarrow> bool" where
  "numeric_cell (Num x) = True"
| "numeric_cell Null = True"
| "numeric_cell c = False"

fun scaled_cell :: "real \<Rightarrow> cell \<Rightarrow> cell" where
  "scaled_cell k (Num x) = Num (x * k)"
| "scaled_cell k c = Null"

definition wf_table :: "table \<Rightarrow> bool" where
  "wf_table t = (\<forall>r \<in> set (rows t). length r = length (columns t))"

fun fbucket :: "real \<Rightarrow> cell \<Rightarrow> cell" where
  "fbucket k (Num x) = Num (round_double (of_int \<lfloor>x / k\<rfloor> * k))"
| "fbucket k c = Null"

fun floored_cell :: "real \<Rightarrow> cell \<Rightarrow> cell" where
  "floored_cell k (Num x) = Num (of_int \<lfloor>x / k\<rfloor>)"
| "floored_cell k c = Null"

subsection \<open>Concrete inputs\<close>

text \<open>One monitoring row with stress 0.4 and biomass 2.0.\<close>

definition risk_example :: table where
  "risk_example = \<lparr>index = None,
     columns = [(''parcelle_id'', Object), (''date'', Datetime),
                (''stress_hydrique'', Number), (''biomasse_estimee'', Number)],
     rows = [[Str ''P001'', Date (2024, 1, 31), Num (4 / 10), Num 2]]\<rparr>"



text \<open>The data a chart shows: for every key of its source, the cells of the full source
  at the given positions, in that order.\<close>

definition visible :: "cds \<Rightarrow> nat list \<Rightarrow> cds \<Rightarrow> cds" where
  "visible full idx filt = map (\<lambda>(k, c). (k, map (\<lambda>i. the (map_of full k) ! i) idx)) filt"

text \<open>A full dataset of four rows, three of them of parcel P001, not in date order.\<close>

definition cds_example :: cds where
  "cds_example =
     [(''parcelle_id'', [Str ''P001'', Str ''P002'', Str ''P001'', Str ''P001'']),
      (''date'', [Date (2024, 3, 31), Date (2024, 1, 31), Date (2024, 1, 31), Date (2024, 2, 29)]),
      (''ndvi'', [Num 3, Num 1, Num 4, Num 5])]"

text \<open>An environment in which no file can be read, and a manager and a dashboard as
  their constructors leave them.\<close>

definition no_files :: files where
  "no_files = \<lparr>monitoring_cultures = Inl (FileNotFoundError ''monitoring_cultures.csv''),
               meteo_detaillee = Inl (FileNotFoundError ''meteo_detaillee.csv''),
               sols = Inl (FileNotFoundError ''sols.csv''),
               historique_rendements = Inl (FileNotFoundError ''historique_rendements.csv'')\<rparr>"

definition new_manager :: manager where
  "new_manager = \<lparr>monitoring_data = None, weather_data = None, soil_data = None,
                   yield_history = None, scaler = StandardScaler\<rparr>"

definition new_dashboard :: dashboard where
  "new_dashboard = \<lparr>data_manager = new_manager, full_yield_source = None, full_ndvi_source = None,
        yield_source = None, ndvi_source = None, stress_source = None,
        full_stress_source = None, features = None\<rparr>"

text \<open>
  Four raw tables of one row each for parcel P001, the manager that holds them, the
  feature table prepared from them (a single row, so every scaled number is 0) and the
  manager left by the preparation.
\<close>

definition mon_one :: table where
  "mon_one = \<lparr>index = None,
     columns = [(''parcelle_id'', Object), (''date'', Datetime), (''ndvi'', Number)],
     rows = [[Str ''P001'', Date (2024, 1, 15), Num 1]]\<rparr>"

definition wea_one :: table where
  "wea_one = \<lparr>index = None,
     columns = [(''date'', Datetime), (''pluie'', Number)],
     rows = [[Date (2024, 1, 10), Num 5]]\<rparr>"

definition soil_one :: table where
  "soil_one = \<lparr>index = None,
     columns = [(''parcelle_id'', Object), (''ph'', Number)],
     rows = [[Str ''P001'', Num 6]]\<rparr>"

definition yield_one :: table where
  "yield_one = \<lparr>index = None,
     columns = [(''parcelle_id'', Object), (''date'', Datetime), (''rendement_estime'', Number)],
     rows = [[Str ''P001'', Date (2024, 1, 1), Num 3]]\<rparr>"

definition mgr_one :: manager where
  "mgr_one = \<lparr>monitoring_data = Some mon_one, weather_data = Some wea_one,
               soil_data = Some soil_one, yield_history = Some yield_one,
               scaler = StandardScaler\<rparr>"

definition features_one :: table where
  "features_one = \<lparr>index = None,
     columns = [(''date'', Datetime), (''parcelle_id'', Object), (''ndvi'', Number),
                (''pluie'', Number), (''ph'', Number), (''rendement_estime'', Number)],
     rows = [[Date (2024, 1, 31), Str ''P001'', Num 0, Num 0, Num 0, Num 0]]\<rparr>"

definition mon_one_indexed :: table where
  "mon_one_indexed = \<lparr>index = Some (''date'', Datetime, [Date (2024, 1, 15)]),
     columns = [(''parcelle_id'', Object), (''ndvi'', Number)],
     rows = [[Str ''P001'', Num 1]]\<rparr>"

definition wea_one_indexed :: table where
  "wea_one_indexed = \<lparr>index = Some (''date'', Datetime, [Date (2024, 1, 10)]),
     columns = [(''pluie'', Number)],
     rows = [[Num 5]]\<rparr>"

definition mgr_one_after :: manager where
  "mgr_one_after = \<lparr>monitoring_data = Some mon_one_indexed, weather_data = Some wea_one_indexed,
               soil_data = Some soil_one, yield_history = Some yield_one,
               scaler = StandardScaler\<rparr>"

text \<open>Two yield-history tables without the column \<open>rendement_estime\<close>, with different
  headers.\<close>

definition yield_a :: table where
  "yield_a = \<lparr>index = None,
     columns = [(''parcelle_id'', Object), (''date'', Datetime), (''rendement'', Number)],
     rows = [[Str ''P001'', Date (2024, 1, 1), Num 3]]\<rparr>"

definition yield_b :: table where
  "yield_b = \<lparr>index = None,
     columns = [(''parcelle_id'', Object), (''date'', Datetime)],
     rows = [[Str ''P001'', Date (2024, 1, 1)]]\<rparr>"

definition mgr_a :: manager where
  "mgr_a = \<lparr>monitoring_data = Some mon_one, weather_data = Some wea_one,
             soil_data = Some soil_one, yield_history = Some yield_a,
             scaler = StandardScaler\<rparr>"

definition mgr_b :: manager where
  "mgr_b = \<lparr>monitoring_data = Some mon_one, weather_data = Some wea_one,
             soil_data = Some soil_one, yield_history = Some yield_b,
             scaler = StandardScaler\<rparr>"

text \<open>Monitoring and weather tables whose dates decrease (February before January),
  with constant readings, and the feature table prepared from them.\<close>

definition mon_two :: table where
  "mon_two = \<lparr>index = None,
     columns = [(''parcelle_id'', Object), (''date'', Datetime), (''ndvi'', Number)],
     rows = [[Str ''P001'', Date (2024, 2, 10), Num 1],
             [Str ''P001'', Date (2024, 1, 15), Num 1]]\<rparr>"

definition wea_two :: table where
  "wea_two = \<lparr>index = None,
     columns = [(''date'', Datetime), (''pluie'', Number)],
     rows = [[Date (2024, 2, 3), Num 5], [Date (2024, 1, 10), Num 5]]\<rparr>"

definition mgr_two :: manager where
  "mgr_two = \<lparr>monitoring_data = Some mon_two, weather_data = Some wea_two,
               soil_data = Some soil_one, yield_history = Some yield_one,
               scaler = StandardScaler\<rparr>"

definition features_two :: table where
  "features_two = \<lparr>index = None,
     columns = [(''date'', Datetime), (''parcelle_id'', Object), (''ndvi'', Number),
                (''pluie'', Number), (''ph'', Number), (''rendement_estime'', Number)],
     rows = [[Date (2024, 1, 31), Str ''P001'', Num 0, Num 0, Num 0, Num 0],
             [Date (2024, 2, 29), Str ''P001'', Num 0, Num 0, Num 0, Num 0]]\<rparr>"

definition mon_two_indexed :: table where
  "mon_two_indexed = \<lparr>index = Some (''date'', Datetime, [Date (2024, 2, 10), Date (2024, 1, 15)]),
     columns = [(''parcelle_id'', Object), (''ndvi'', Number)],
     rows = [[Str ''P001'', Num 1], [Str ''P001'', Num 1]]\<rparr>"

text \<open>The environment in which the four files hold the one-row tables.\<close>

definition files_one :: files where
  "files_one = \<lparr>monitoring_cultures = Inr mon_one, meteo_detaillee = Inr wea_one,
                 sols = Inr soil_one, historique_rendements = Inr yield_one\<rparr>"

text \<open>A soil table with the column \<open>parcelle_id\<close> only, which does not list P001.\<close>

definition soil_bare :: table where
  "soil_bare = \<lparr>index = None, columns = [(''parcelle_id'', Object)], rows = [[Str ''P002'']]\<rparr>"

definition mgr_bare :: manager where
  "mgr_bare = \<lparr>monitoring_data = Some mon_one, weather_data = Some wea_one,
                soil_data = Some soil_bare, yield_history = Some yield_one,
                scaler = StandardScaler\<rparr>"

definition features_bare :: table where
  "features_bare = \<lparr>index = None,
     columns = [(''date'', Datetime), (''parcelle_id'', Object), (''ndvi'', Number),
                (''pluie'', Number), (''rendement_estime'', Number)],
     rows = [[Date (2024, 1, 31), Str ''P001'', Num 0, Num 0, Num 0]]\<rparr>"

text \<open>Monitoring and yield history for the parcels P001 and P003, of which the soil
  table \<open>soil_one\<close> has only P001.\<close>

definition mon_three :: table where
  "mon_three = \<lparr>index = None,
     columns = [(''parcelle_id'', Object), (''date'', Datetime), (''ndvi'', Number)],
     rows = [[Str ''P001'', Date (2024, 1, 15), Num 1],
             [Str ''P003'', Date (2024, 1, 20), Num 2]]\<rparr>"

definition yield_three :: table where
  "yield_three = \<lparr>index = None,
     columns = [(''parcelle_id'', Object), (''date'', Datetime), (''rendement_estime'', Number)],
     rows = [[Str ''P001'', Date (2024, 1, 1), Num 3],
             [Str ''P003'', Date (2024, 1, 1), Num 4]]\<rparr>"

definition mgr_three :: manager where
  "mgr_three = \<lparr>monitoring_data = Some mon_three, weather_data = Some wea_one,
                 soil_data = Some soil_one, yield_history = Some yield_three,
                 scaler = StandardScaler\<rparr>"

text \<open>
  The manager \<open>mgr_b\<close> after lines 58 to 63 and its table after the soil join; a soil
  table that has a column named \<open>rendement_estime\<close>, the manager holding it, that manager
  after lines 58 to 63, its table after the soil join and after the yield join, where the
  two columns of that name got the suffixes \<open>_x\<close> and \<open>_y\<close>.
\<close>

definition mgr_b_after :: manager where
  "mgr_b_after = \<lparr>monitoring_data = Some mon_one_indexed, weather_data = Some wea_one_indexed,
                   soil_data = Some soil_one, yield_history = Some yield_b,
                   scaler = StandardScaler\<rparr>"

definition combined_one :: table where
  "combined_one = \<lparr>index = None,
     columns = [(''date'', Datetime), (''parcelle_id'', Object), (''ndvi'', Number),
                (''pluie'', Number), (''ph'', Number)],
     rows = [[Date (2024, 1, 31), Str ''P001'', Num 1, Num 5, Num 6]]\<rparr>"

definition soil_r :: table where
  "soil_r = \<lparr>index = None,
     columns = [(''parcelle_id'', Object), (''rendement_estime'', Number)],
     rows = [[Str ''P001'', Num 6]]\<rparr>"

definition mgr_c :: manager where
  "mgr_c = \<lparr>monitoring_data = Some mon_one, weather_data = Some wea_one,
             soil_data = Some soil_r, yield_history = Some yield_one,
             scaler = StandardScaler\<rparr>"

definition mgr_c_after :: manager where
  "mgr_c_after = \<lparr>monitoring_data = Some mon_one_indexed, weather_data = Some wea_one_indexed,
                   soil_data = Some soil_r, yield_history = Some yield_one,
                   scaler = StandardScaler\<rparr>"

definition combined_c :: table where
  "combined_c = \<lparr>index = None,
     columns = [(''date'', Datetime), (''parcelle_id'', Object), (''ndvi'', Number),
                (''pluie'', Number), (''rendement_estime'', Number)],
     rows = [[Date (2024, 1, 31), Str ''P001'', Num 1, Num 5, Num 6]]\<rparr>"

definition joined_c :: table where
  "joined_c = \<lparr>index = None,
     columns = [(''date'', Datetime), (''parcelle_id'', Object), (''ndvi'', Number),
                (''pluie'', Number), (''rendement_estime_x'', Number),
                (''rendement_estime_y'', Number)],
     rows = [[Date (2024, 1, 31), Str ''P001'', Num 1, Num 5, Num 6, Num 3]]\<rparr>"

text \<open>A feature row whose temperature and stress are the doubles written 22.7 and 0.37,
  and one whose stress is 0.5.\<close>

definition bins_example :: table where
  "bins_example = \<lparr>index = None,
     columns = [(''parcelle_id'', Object), (''temperature'', Number), (''stress_hydrique'', Number)],
     rows = [[Str ''P001'', Num (6389481971331891 / 281474976710656),
              Num (3332663724254167 / 9007199254740992)]]\<rparr>"

definition half_example :: table where
  "half_example = \<lparr>index = None,
     columns = [(''parcelle_id'', Object), (''temperature'', Number), (''stress_hydrique'', Number)],
     rows = [[Str ''P001'', Num 25, Num (1 / 2)]]\<rparr>"

section \<open>Properties\<close>

lemma index_of_Some: "index_of x xs = Some j \<Longrightarrow> j < length xs \<and> xs ! j = x"
  by (induction xs arbitrary: j) (auto split: if_splits)

lemma index_of_None: "index_of x xs = None \<longleftrightarrow> x \<notin> set xs"
  by (induction xs) auto

lemma index_of_Some_mem: "index_of x xs = Some j \<Longrightarrow> x \<in> set xs"
  using index_of_None[of x xs] by auto

lemma index_of_append: "x \<in> set xs \<Longrightarrow> index_of x (xs @ ys) = index_of x xs"
  by (induction xs) auto

lemma index_of_append_new: "x \<notin> set xs \<Longrightarrow> index_of x (xs @ [x]) = Some (length xs)"
  by (induction xs) auto

lemma sequence_err_map_Inr:
  "(\<And>x. x \<in> set xs \<Longrightarrow> f x = Inr (g x)) \<Longrightarrow> sequence_err (map f xs) = Inr (map g xs)"
  by (induction xs) auto

lemma get_loc_Inr: "get_loc t n = Inr j \<Longrightarrow> index_of n (col_names t) = Some j"
  by (auto simp: get_loc_def split: option.splits)

lemma get_loc_bound: "get_loc t n = Inr j \<Longrightarrow> j < length (columns t) \<and> fst (columns t ! j) = n"
  by (auto simp: get_loc_def col_names_def split: option.splits dest!: index_of_Some)

lemma mul_cell_numeric: "numeric_cell c \<Longrightarrow> mul_cell k c = Inr (scaled_cell k c)"
  by (cases c) auto

lemma add_cell_numeric:
  "numeric_cell a \<Longrightarrow> numeric_cell b \<Longrightarrow>
   add_cell (scaled_cell (1 / 2) a, scaled_cell (3 / 10) b) = Inr (risk_cell a b)"
  by (cases a; cases b) auto

lemma risk_score_eval:
  assumes js: "get_loc data ''stress_hydrique'' = Inr js"
    and jb: "get_loc data ''biomasse_estimee'' = Inr jb"
    and num: "\<And>r. r \<in> set (rows data) \<Longrightarrow> numeric_cell (r ! js) \<and> numeric_cell (r ! jb)"
  shows "\<exists>d. risk_score data = Inr (d, map (\<lambda>r. risk_cell (r ! js) (r ! jb)) (rows data))"
proof -
  have a: "sequence_err (map (mul_cell k \<circ> (\<lambda>r. r ! j)) (rows data))
        = Inr (map (\<lambda>r. scaled_cell k (r ! j)) (rows data))"
    if "j = js \<or> j = jb" for j k
    by (rule sequence_err_map_Inr) (use num that in \<open>auto simp: mul_cell_numeric\<close>)
  have b: "sequence_err (map add_cell (zip
        (map (\<lambda>r. scaled_cell (1 / 2) (r ! js)) (rows data))
        (map (\<lambda>r. scaled_cell (3 / 10) (r ! jb)) (rows data))))
      = Inr (map (\<lambda>r. risk_cell (r ! js) (r ! jb)) (rows data))"
    unfolding zip_map_map zip_same_conv_map map_map
    by (rule sequence_err_map_Inr) (use num in \<open>auto simp: add_cell_numeric\<close>)
  show ?thesis
    using js jb by (simp add: risk_score_def getitem_def series_mul_def series_add_def a b)
qed

lemma col_names_setitem:
  "col_names (setitem t n s) = (if n \<in> set (col_names t) then col_names t else col_names t @ [n])"
  by (auto simp: setitem_def col_names_def index_of_None map_update split: option.splits
      dest!: index_of_Some intro!: nth_equalityI simp: nth_list_update)

lemma rows_setitem_new:
  "n \<notin> set (col_names t) \<Longrightarrow> length (snd s) = length (rows t) \<Longrightarrow>
   rows (setitem t n s) = map2 (\<lambda>r c. r @ [c]) (rows t) (snd s)"
  by (auto simp: setitem_def index_of_None[symmetric] split: option.splits)

text \<open>
  Claim C2. On a table that has the columns \<open>parcelle_id\<close>, \<open>date\<close>, \<open>stress_hydrique\<close>
  and \<open>biomasse_estimee\<close>, the last two holding numbers or nulls, \<open>calculate_risk_metrics\<close>
  returns a table with exactly the columns \<open>parcelle_id\<close>, \<open>date\<close>, \<open>risk_score\<close>, one row
  per input row, whose score is \<open>0.5 * stress_hydrique + 0.3 * biomasse_estimee\<close> (null when
  either input is null). Stress 0.4 and biomass 2.0 give 0.8.
\<close>

theorem calculate_risk_metrics_result:
  assumes jp: "get_loc data ''parcelle_id'' = Inr jp"
    and jd: "get_loc data ''date'' = Inr jd"
    and js: "get_loc data ''stress_hydrique'' = Inr js"
    and jb: "get_loc data ''biomasse_estimee'' = Inr jb"
    and num: "\<forall>r \<in> set (rows data). numeric_cell (r ! js) \<and> numeric_cell (r ! jb)"
    and wf: "wf_table data"
  shows "\<exists>res. fst (calculate_risk_metrics data) = Inr res
           \<and> col_names res = [''parcelle_id'', ''date'', ''risk_score'']
           \<and> rows res = map (\<lambda>r. [r ! jp, r ! jd, risk_cell (r ! js) (r ! jb)]) (rows data)"
proof -
  obtain d where rs: "risk_score data = Inr (d, map (\<lambda>r. risk_cell (r ! js) (r ! jb)) (rows data))"
    using risk_score_eval[OF js jb] num by blast
  define s where "s = (d, map (\<lambda>r. risk_cell (r ! js) (r ! jb)) (rows data))"
  define data' where "data' = setitem data ''risk_score'' s"
  have len: "jp < length (columns data)" "jd < length (columns data)"
    using get_loc_bound[OF jp] get_loc_bound[OF jd] by auto
  have ip: "index_of ''parcelle_id'' (col_names data) = Some jp"
    and idd: "index_of ''date'' (col_names data) = Some jd"
    using jp jd by (auto dest: get_loc_Inr)
  show ?thesis
  proof (cases "index_of ''risk_score'' (col_names data)")
    case None
    then have nin: "''risk_score'' \<notin> set (col_names data)" by (simp add: index_of_None)
    have cn: "col_names data' = col_names data @ [''risk_score'']"
      using nin by (simp add: data'_def col_names_setitem)
    have pin: "''parcelle_id'' \<in> set (col_names data)" "''date'' \<in> set (col_names data)"
      using ip idd by (auto simp: index_of_Some_mem)
    have locs: "get_loc data' ''parcelle_id'' = Inr jp" "get_loc data' ''date'' = Inr jd"
      "get_loc data' ''risk_score'' = Inr (length (columns data))"
      using pin nin ip idd
      by (auto simp: get_loc_def cn index_of_append index_of_append_new)
         (simp add: col_names_def)
    have cols: "columns data' = columns data @ [(''risk_score'', d)]"
      using None by (simp add: data'_def setitem_def s_def)
    have rws: "rows data' = map (\<lambda>r. r @ [risk_cell (r ! js) (r ! jb)]) (rows data)"
      using None by (simp add: data'_def setitem_def s_def zip_map2 zip_same_conv_map o_def)
    have "project data' [''parcelle_id'', ''date'', ''risk_score'']
        = Inr (data'\<lparr>columns := [columns data ! jp, columns data ! jd, (''risk_score'', d)],
              rows := map (\<lambda>r. [r ! jp, r ! jd, risk_cell (r ! js) (r ! jb)]) (rows data)\<rparr>)"
      using len wf by (simp add: project_def locs cols rws nth_append wf_table_def o_def cong: map_cong)
    then show ?thesis
      using get_loc_bound[OF jp] get_loc_bound[OF jd]
      by (simp add: calculate_risk_metrics_def rs s_def[symmetric] data'_def[symmetric] col_names_def)
  next
    case (Some jr)
    then have jr: "jr < length (columns data)" "col_names data ! jr = ''risk_score''"
      by (auto dest!: index_of_Some simp: col_names_def)
    have ne: "jr \<noteq> jp" "jr \<noteq> jd"
      using jr ip idd by (auto dest!: index_of_Some)
    have cn: "col_names data' = col_names data"
      using Some jr by (simp add: data'_def col_names_setitem index_of_Some_mem)
    have locs: "get_loc data' ''parcelle_id'' = Inr jp" "get_loc data' ''date'' = Inr jd"
      "get_loc data' ''risk_score'' = Inr jr"
      using ip idd Some by (simp_all add: get_loc_def cn)
    have cols: "columns data' = (columns data)[jr := (''risk_score'', d)]"
      using Some by (simp add: data'_def setitem_def s_def)
    have rws: "rows data' = map (\<lambda>r. r[jr := risk_cell (r ! js) (r ! jb)]) (rows data)"
      using Some by (simp add: data'_def setitem_def s_def zip_map2 zip_same_conv_map o_def)
    have "project data' [''parcelle_id'', ''date'', ''risk_score'']
        = Inr (data'\<lparr>columns := [columns data ! jp, columns data ! jd, (''risk_score'', d)],
              rows := map (\<lambda>r. [r ! jp, r ! jd, risk_cell (r ! js) (r ! jb)]) (rows data)\<rparr>)"
      using len wf jr ne by (simp add: project_def locs cols rws wf_table_def o_def cong: map_cong)
    then show ?thesis
      using get_loc_bound[OF jp] get_loc_bound[OF jd]
      by (simp add: calculate_risk_metrics_def rs s_def[symmetric] data'_def[symmetric] col_names_def)
  qed
qed

theorem calculate_risk_metrics_result_witness:
  "\<exists>res. fst (calculate_risk_metrics risk_example) = Inr res
      \<and> col_names res = [''parcelle_id'', ''date'', ''risk_score'']
      \<and> rows res = [[Str ''P001'', Date (2024, 1, 31), Num (8 / 10)]]"
  using calculate_risk_metrics_result[of risk_example 0 1 2 3]
  by (simp add: risk_example_def get_loc_def col_names_def wf_table_def)

lemma wf_table_nth: "wf_table t \<Longrightarrow> i < length (rows t) \<Longrightarrow> length (rows t ! i) = length (columns t)"
  by (simp add: wf_table_def)

lemma length_rows_setitem:
  "length (snd s) = length (rows t) \<Longrightarrow> length (rows (setitem t n s)) = length (rows t)"
  by (simp add: setitem_def split: option.splits)

lemma wf_setitem:
  "wf_table t \<Longrightarrow> wf_table (setitem t n s)"
  by (auto simp: wf_table_def setitem_def split: option.splits dest!: set_zip_leftD)

lemma getitem_setitem_same:
  assumes "wf_table t" "length (snd s) = length (rows t)"
  shows "getitem (setitem t n s) n = Inr s"
proof (cases "index_of n (col_names t)")
  case None
  then have nin: "n \<notin> set (col_names t)" by (simp add: index_of_None)
  have "map (\<lambda>r. r ! length (columns t)) (map2 (\<lambda>r c. r @ [c]) (rows t) (snd s)) = snd s"
    using assms by (intro nth_equalityI) (auto simp: wf_table_nth nth_append)
  then show ?thesis
    using None nin
    by (simp add: getitem_def get_loc_def col_names_setitem index_of_append_new)
       (simp add: setitem_def col_names_def)
next
  case (Some j)
  then have j: "j < length (columns t)" by (auto dest!: index_of_Some simp: col_names_def)
  have "map (\<lambda>r. r ! j) (map2 (\<lambda>r c. r[j := c]) (rows t) (snd s)) = snd s"
    using assms j by (intro nth_equalityI) (auto simp: wf_table_nth)
  then show ?thesis
    using Some j
    by (simp add: getitem_def get_loc_def col_names_setitem index_of_Some_mem)
       (simp add: setitem_def)
qed

lemma getitem_setitem_other:
  assumes "wf_table t" "length (snd s) = length (rows t)" "m \<noteq> n"
  shows "getitem (setitem t n s) m = getitem t m"
proof (cases "index_of m (col_names t)")
  case None
  then have "m \<notin> set (col_names (setitem t n s))"
    using assms by (auto simp: col_names_setitem index_of_None)
  then show ?thesis
    using None by (simp add: getitem_def get_loc_def index_of_None[symmetric])
next
  case (Some j)
  then have j: "j < length (columns t)" "col_names t ! j = m"
    by (auto dest!: index_of_Some simp: col_names_def)
  have loc: "index_of m (col_names (setitem t n s)) = Some j"
    using Some by (simp add: col_names_setitem index_of_append index_of_Some_mem)
  show ?thesis
  proof (cases "index_of n (col_names t)")
    case None
    have "map (\<lambda>r. r ! j) (map2 (\<lambda>r c. r @ [c]) (rows t) (snd s)) = map (\<lambda>r. r ! j) (rows t)"
      using assms j by (intro nth_equalityI) (auto simp: wf_table_nth nth_append)
    then show ?thesis
      using None Some j loc by (simp add: getitem_def get_loc_def) (simp add: setitem_def nth_append)
  next
    case (Some k)
    then have "k \<noteq> j" using j assms by (auto dest!: index_of_Some)
    have "map (\<lambda>r. r ! j) (map2 (\<lambda>r c. r[k := c]) (rows t) (snd s)) = map (\<lambda>r. r ! j) (rows t)"
      using assms \<open>k \<noteq> j\<close> by (intro nth_equalityI) auto
    then show ?thesis
      using Some \<open>index_of m (col_names t) = Some j\<close> j loc \<open>k \<noteq> j\<close>
      by (simp add: getitem_def get_loc_def) (simp add: setitem_def)
  qed
qed

lemma series_floordiv_numeric:
  assumes "\<forall>c \<in> set cs. numeric_cell c"
  shows "series_floordiv (d, cs) k = Inr (d, map (floored_cell k) cs)"
proof -
  have "sequence_err (map (floordiv_cell k) cs) = Inr (map (floored_cell k) cs)"
  proof (rule sequence_err_map_Inr)
    fix c assume "c \<in> set cs"
    then have "numeric_cell c" using assms by blast
    then show "floordiv_cell k c = Inr (floored_cell k c)" by (cases c) auto
  qed
  then show ?thesis by (simp add: series_floordiv_def)
qed

text \<open>
  Claim C10. \<open>calculate_risk_metrics\<close> writes into the table it is given: when the table
  has the columns \<open>stress_hydrique\<close> and \<open>biomasse_estimee\<close> (numbers or nulls), the table
  the caller holds after the call has a \<open>risk_score\<close> column holding the scores, appended
  when the table had no such column.
\<close>

theorem calculate_risk_metrics_mutates:
  assumes js: "get_loc data ''stress_hydrique'' = Inr js"
    and jb: "get_loc data ''biomasse_estimee'' = Inr jb"
    and num: "\<forall>r \<in> set (rows data). numeric_cell (r ! js) \<and> numeric_cell (r ! jb)"
    and wf: "wf_table data"
  shows "\<exists>d. snd (calculate_risk_metrics data)
              = setitem data ''risk_score'' (d, map (\<lambda>r. risk_cell (r ! js) (r ! jb)) (rows data))
           \<and> getitem (snd (calculate_risk_metrics data)) ''risk_score''
              = Inr (d, map (\<lambda>r. risk_cell (r ! js) (r ! jb)) (rows data))
           \<and> col_names (snd (calculate_risk_metrics data))
              = (if ''risk_score'' \<in> set (col_names data) then col_names data
                 else col_names data @ [''risk_score''])"
proof -
  obtain d where rs: "risk_score data = Inr (d, map (\<lambda>r. risk_cell (r ! js) (r ! jb)) (rows data))"
    using risk_score_eval[OF js jb] num by blast
  have "snd (calculate_risk_metrics data)
      = setitem data ''risk_score'' (d, map (\<lambda>r. risk_cell (r ! js) (r ! jb)) (rows data))"
    by (simp add: calculate_risk_metrics_def rs Let_def)
  moreover have "getitem (setitem data ''risk_score'' (d, map (\<lambda>r. risk_cell (r ! js) (r ! jb)) (rows data)))
      ''risk_score'' = Inr (d, map (\<lambda>r. risk_cell (r ! js) (r ! jb)) (rows data))"
    by (rule getitem_setitem_same[OF wf]) simp
  ultimately show ?thesis
    by (auto simp: col_names_setitem)
qed

theorem calculate_risk_metrics_mutates_witness:
  "\<exists>d. getitem (snd (calculate_risk_metrics risk_example)) ''risk_score'' = Inr (d, [Num (8 / 10)])
      \<and> col_names (snd (calculate_risk_metrics risk_example))
         = [''parcelle_id'', ''date'', ''stress_hydrique'', ''biomasse_estimee'', ''risk_score'']"
  using calculate_risk_metrics_mutates[of risk_example 2 3]
  by (auto simp: risk_example_def get_loc_def col_names_def wf_table_def)

lemma set_matching: "set (matching pids choix) = {i. i < length pids \<and> pids ! i = Str choix}"
  by (auto simp: matching_def)

lemma push_rows_visible:
  assumes keys: "\<forall>k \<in> set (map fst filt). \<exists>col. map_of full k = Some col \<and> length col = n"
    and idx: "\<forall>i \<in> set idx. i < n"
  shows "push_rows full filt idx = Done (visible full idx filt)"
proof (cases "idx = []")
  case True
  then show ?thesis by (simp add: push_rows_def visible_def)
next
  case False
  have none: "\<not> (\<exists>k \<in> set (map fst filt). map_of full k = None)"
    using keys by fastforce
  have eq: "map (js_nth (the (map_of full k))) idx = map (\<lambda>i. the (map_of full k) ! i) idx"
    if mem: "(k, c) \<in> set filt" for k c
  proof -
    have "k \<in> set (map fst filt)" using mem by force
    then obtain col where "map_of full k = Some col" "length col = n"
      using keys by blast
    then show ?thesis using idx by (simp add: js_nth_def)
  qed
  have "map (\<lambda>(k, c). (k, map (js_nth (the (map_of full k))) idx)) filt
      = map (\<lambda>(k, c). (k, map (\<lambda>i. the (map_of full k) ! i) idx)) filt"
    by (rule map_cong) (auto simp: eq)
  then show ?thesis
    using False none by (simp add: push_rows_def visible_def)
qed

lemma sort_indices_dates:
  assumes dt: "map_of full ''date'' = Some dates"
    and ok: "\<forall>i \<in> set idx. i < length dates \<and> time_value (dates ! i) \<noteq> None"
  shows "sort_indices full idx = Done (sort_key (date_at dates) idx)"
proof (cases "length idx < 2")
  case True
  then have "sort_key (date_at dates) idx = idx"
    by (cases idx; cases "tl idx") auto
  then show ?thesis using True by (simp add: sort_indices_def)
next
  case False
  show ?thesis
    using False dt ok by (auto simp: sort_indices_def js_nth_def)
qed

text \<open>
  Claim C9. Given a full dataset (with a \<open>parcelle_id\<close> column, a \<open>date\<close> column of valid
  dates and a column for every key of the chart's source, all of one length) and a selected
  parcel, the yield callback replaces the visible data by the rows whose \<open>parcelle_id\<close>
  equals the selection, in ascending date order (the positions shown are exactly the
  matching ones, each once), and the NDVI callback by the matching rows in source order.
\<close>

theorem selection_callbacks:
  assumes pid: "map_of full ''parcelle_id'' = Some pids"
    and dt: "map_of full ''date'' = Some dates"
    and len: "length dates = length pids"
    and tv: "\<forall>c \<in> set dates. time_value c \<noteq> None"
    and keys: "\<forall>k \<in> set (map fst filt). \<exists>col. map_of full k = Some col \<and> length col = length pids"
  shows "callback_yield (Some full) (Some filt) choix
           = Done (visible full (sort_key (date_at dates) (matching pids choix)) filt)
       \<and> sorted (map (date_at dates) (sort_key (date_at dates) (matching pids choix)))
       \<and> set (sort_key (date_at dates) (matching pids choix))
           = {i. i < length pids \<and> pids ! i = Str choix}
       \<and> distinct (sort_key (date_at dates) (matching pids choix))
       \<and> callback_ndvi (Some full) (Some filt) choix = Done (visible full (matching pids choix) filt)
       \<and> matching pids choix = filter (\<lambda>i. pids ! i = Str choix) [0..<length pids]"
proof -
  have m: "\<forall>i \<in> set (matching pids choix). i < length pids"
    by (simp add: set_matching)
  have ok: "\<forall>i \<in> set (matching pids choix). i < length dates \<and> time_value (dates ! i) \<noteq> None"
    using m tv len by auto
  have s: "sort_indices full (matching pids choix) = Done (sort_key (date_at dates) (matching pids choix))"
    by (rule sort_indices_dates[OF dt ok])
  have m': "\<forall>i \<in> set (sort_key (date_at dates) (matching pids choix)). i < length pids"
    using m by simp
  have y: "callback_yield (Some full) (Some filt) choix
           = Done (visible full (sort_key (date_at dates) (matching pids choix)) filt)"
    by (simp add: callback_yield_def pid s push_rows_visible[OF keys m'])
  have n: "callback_ndvi (Some full) (Some filt) choix = Done (visible full (matching pids choix) filt)"
    by (simp add: callback_ndvi_def pid push_rows_visible[OF keys m])
  have d: "distinct (matching pids choix)" by (simp add: matching_def)
  show ?thesis
    using y n d by (simp add: set_matching) (simp add: matching_def)
qed

theorem selection_callbacks_witness:
  "callback_yield (Some cds_example) (Some [(''date'', []), (''ndvi'', [Num 7])]) ''P001''
     = Done [(''date'', [Date (2024, 1, 31), Date (2024, 2, 29), Date (2024, 3, 31)]),
             (''ndvi'', [Num 4, Num 5, Num 3])]
   \<and> callback_ndvi (Some cds_example) (Some [(''date'', []), (''ndvi'', [Num 7])]) ''P001''
     = Done [(''date'', [Date (2024, 3, 31), Date (2024, 1, 31), Date (2024, 2, 29)]),
             (''ndvi'', [Num 3, Num 4, Num 5])]"
  using selection_callbacks[of cds_example
      "[Str ''P001'', Str ''P002'', Str ''P001'', Str ''P001'']"
      "[Date (2024, 3, 31), Date (2024, 1, 31), Date (2024, 1, 31), Date (2024, 2, 29)]"
      "[(''date'', []), (''ndvi'', [Num 7])]" "''P001''"]
  by (simp add: cds_example_def visible_def matching_def date_at_def js_nth_def upt_rec)

text \<open>
  Claim C6. \<open>create_data_sources\<close> never lets an exception reach its caller. Whenever the
  body of its \<open>try\<close> fails, be it a failing load, a failing preparation or a required
  column (\<open>parcelle_id\<close>, \<open>date\<close>, \<open>rendement_estime\<close>, \<open>ndvi\<close>) missing from the feature
  table, the yield and NDVI sources are \<open>None\<close> afterwards and the failure is the last record
  logged.
\<close>

theorem create_data_sources_never_raises:
  "fst (create_data_sources fs d) = Inr ()
   \<and> (\<forall>e. fst (create_data_sources_body fs d) = Inl e \<longrightarrow>
         yield_source (fst (snd (create_data_sources fs d))) = None
       \<and> ndvi_source (fst (snd (create_data_sources fs d))) = None
       \<and> last (snd (snd (create_data_sources fs d)))
           = Log_error ''Erreur lors de la preparation des sources de donnees'' e)
   \<and> (\<forall>e. fst (load_data fs (data_manager d)) = Inl e \<longrightarrow>
         fst (create_data_sources_body fs d) = Inl e)
   \<and> (\<forall>m1 e. load_data fs (data_manager d) = (Inr (), m1) \<and> fst (prepare_features m1) = Inl e \<longrightarrow>
         fst (create_data_sources_body fs d) = Inl e)
   \<and> (\<forall>m1 t. load_data fs (data_manager d) = (Inr (), m1) \<and> fst (prepare_features m1) = Inr t
         \<and> \<not> set required_columns \<subseteq> set (col_names t) \<longrightarrow>
         fst (create_data_sources_body fs d) = Inl (ValueError ''Colonnes manquantes''))"
  by (auto simp: create_data_sources_def create_data_sources_body_def Let_def
      split: prod.splits sum.splits)

theorem create_data_sources_never_raises_witness:
  "fst (create_data_sources no_files new_dashboard) = Inr ()
   \<and> fst (create_data_sources_body no_files new_dashboard)
       = Inl (FileNotFoundError ''monitoring_cultures.csv'')
   \<and> yield_source (fst (snd (create_data_sources no_files new_dashboard))) = None
   \<and> ndvi_source (fst (snd (create_data_sources no_files new_dashboard))) = None
   \<and> snd (snd (create_data_sources no_files new_dashboard))
       = [Log_error ''Erreur lors de la preparation des sources de donnees''
            (FileNotFoundError ''monitoring_cultures.csv'')]"
  using create_data_sources_never_raises[of no_files new_dashboard]
  by (simp add: create_data_sources_def create_data_sources_body_def load_data_def
      no_files_def new_dashboard_def)

lemma full_sources_untouched:
  "full_yield_source (fst (snd (create_data_sources fs d))) = full_yield_source d
   \<and> full_ndvi_source (fst (snd (create_data_sources fs d))) = full_ndvi_source d"
  by (auto simp: create_data_sources_def create_data_sources_body_def Let_def
      split: prod.splits sum.splits)

lemma bind_err_Inr_iff: "bind_err m f = Inr x \<longleftrightarrow> (\<exists>y. m = Inr y \<and> f y = Inr x)"
  by (cases m) auto

lemma bind_err_Inl_iff: "bind_err m f = Inl e \<longleftrightarrow> m = Inl e \<or> (\<exists>y. m = Inr y \<and> f y = Inl e)"
  by (cases m) auto

lemma steps_prepare:
  assumes "reindex_dates m = (Inr u, m')"
  shows "\<exists>mon mon1 mon2 wea wea1 wea2 yh yh1.
           monitoring_data m = Some mon \<and> reparse_date mon = Inr mon1 \<and> set_index mon1 ''date'' = Inr mon2
         \<and> weather_data m = Some wea \<and> reparse_date wea = Inr wea1 \<and> set_index wea1 ''date'' = Inr wea2
         \<and> yield_history m = Some yh \<and> reparse_date yh = Inr yh1
         \<and> m' = m\<lparr>monitoring_data := Some mon2, weather_data := Some wea2, yield_history := Some yh1\<rparr>"
  using assms unfolding reindex_dates_def
  by (auto simp: step_def held_def bind_err_Inr_iff split: option.splits sum.splits prod.splits)

lemma col_names_reparse_date: "reparse_date t = Inr t' \<Longrightarrow> col_names t' = col_names t"
  by (auto simp: reparse_date_def bind_err_Inr_iff getitem_def col_names_setitem
      dest!: get_loc_Inr index_of_Some_mem)

lemma merge_tables_rendement:
  assumes "merge_tables m = Inr c"
  shows "''rendement_estime'' \<in> set (col_names c)
       \<and> (\<exists>yh. yield_history m = Some yh \<and> ''rendement_estime'' \<in> set (col_names yh))"
  using assms unfolding merge_tables_def merge_soil_def yield_join_def check_rendement_def
  by (auto simp: bind_err_Inr_iff held_def split: if_splits option.splits)

lemma prepare_body_Inr:
  assumes "prepare_body m = (Inr t, m')"
  shows "reindex_dates m = (Inr (), m')
       \<and> merge_features m' = Inr t"
  using assms unfolding prepare_body_def
  by (auto split: prod.splits sum.splits)

lemma prepare_features_cases:
  "(\<exists>e m'. prepare_body m = (Inl e, m') \<and> prepare_features m
       = (Inl e, m', [Log_error ''Erreur lors de la preparation des caracteristiques'' e]))
   \<or> (\<exists>t m'. prepare_body m = (Inr t, m') \<and> prepare_features m
       = (Inr t, m', [Log_info ''Colonnes disponibles apres fusion'' (col_names t)]))"
  unfolding prepare_features_def by (auto split: prod.splits sum.splits)

lemma prepare_features_Inl:
  assumes "reindex_dates m = (Inr (), m')" "merge_tables m' = Inl e"
  shows "prepare_features m
           = (Inl e, m', [Log_error ''Erreur lors de la preparation des caracteristiques'' e])"
  using assms by (simp add: prepare_features_def prepare_body_def merge_features_def)

text \<open>
  Claim C4, as amended. \<open>prepare_features\<close> raises whenever the held yield-history table
  lacks the column \<open>rendement_estime\<close>, and the handler logs the exception and raises it
  again as it is. The check of line 98 raises, for every pair of tables, the same KeyError
  with a fixed message, and so does the check of line 102 for every merged table without
  the column: neither carries a column list. When the stages before a check succeed,
  that KeyError is what \<open>prepare_features\<close> raises and the only record it logs. No merged
  table without the column leaves the merge stage. The header of a table is logged only
  after a successful preparation.
\<close>

theorem prepare_features_requires_rendement:
  "(\<forall>yh. yield_history m = Some yh \<and> ''rendement_estime'' \<notin> set (col_names yh) \<longrightarrow>
       (\<exists>e. fst (prepare_features m) = Inl e
          \<and> snd (snd (prepare_features m))
             = [Log_error ''Erreur lors de la preparation des caracteristiques'' e]))
   \<and> (\<forall>combined yh. ''rendement_estime'' \<notin> set (col_names yh) \<longrightarrow>
         yield_join combined yh
           = Inl (KeyError ''rendement_estime n est pas present dans yield_history''))
   \<and> (\<forall>combined. ''rendement_estime'' \<notin> set (col_names combined) \<longrightarrow>
         check_rendement combined
           = Inl (KeyError ''rendement_estime n est pas present apres la fusion.''))
   \<and> (\<forall>m' combined yh. reindex_dates m = (Inr (), m') \<and> merge_soil m' = Inr combined
         \<and> yield_history m' = Some yh \<and> ''rendement_estime'' \<notin> set (col_names yh) \<longrightarrow>
         prepare_features m
           = (Inl (KeyError ''rendement_estime n est pas present dans yield_history''), m',
              [Log_error ''Erreur lors de la preparation des caracteristiques''
                 (KeyError ''rendement_estime n est pas present dans yield_history'')]))
   \<and> (\<forall>m' combined yh joined. reindex_dates m = (Inr (), m') \<and> merge_soil m' = Inr combined
         \<and> yield_history m' = Some yh \<and> yield_join combined yh = Inr joined
         \<and> ''rendement_estime'' \<notin> set (col_names joined) \<longrightarrow>
         prepare_features m
           = (Inl (KeyError ''rendement_estime n est pas present apres la fusion.''), m',
              [Log_error ''Erreur lors de la preparation des caracteristiques''
                 (KeyError ''rendement_estime n est pas present apres la fusion.'')]))
   \<and> (\<forall>m' merged. merge_tables m' = Inr merged \<longrightarrow>
         ''rendement_estime'' \<in> set (col_names merged))
   \<and> (\<forall>t m' l. prepare_features m = (Inr t, m', l) \<longrightarrow>
         l = [Log_info ''Colonnes disponibles apres fusion'' (col_names t)])"
proof -
  have raised: "\<exists>e. fst (prepare_features m) = Inl e
          \<and> snd (snd (prepare_features m))
             = [Log_error ''Erreur lors de la preparation des caracteristiques'' e]"
    if yh: "yield_history m = Some yh" and absent: "''rendement_estime'' \<notin> set (col_names yh)" for yh
  proof -
    have "\<not> (\<exists>t m'. prepare_body m = (Inr t, m'))"
    proof
      assume "\<exists>t m'. prepare_body m = (Inr t, m')"
      then obtain t m' where b: "prepare_body m = (Inr t, m')" by blast
      note pb = prepare_body_Inr[OF b]
      have mf: "merge_features m' = Inr t" using pb by blast
      from steps_prepare[OF conjunct1[OF pb]] obtain yh1 where
        "reparse_date yh = Inr yh1" "yield_history m' = Some yh1"
        using yh by auto
      moreover obtain c where "merge_tables m' = Inr c"
        using mf by (auto simp: merge_features_def bind_err_Inr_iff)
      ultimately show False
        using absent merge_tables_rendement[of m' c] col_names_reparse_date[of yh yh1] by auto
    qed
    then show ?thesis
      using prepare_features_cases[of m] by auto
  qed
  have l98: "yield_join combined yh
           = Inl (KeyError ''rendement_estime n est pas present dans yield_history'')"
    if "''rendement_estime'' \<notin> set (col_names yh)" for combined yh
    using that by (simp add: yield_join_def)
  have l102: "check_rendement combined
           = Inl (KeyError ''rendement_estime n est pas present apres la fusion.'')"
    if "''rendement_estime'' \<notin> set (col_names combined)" for combined
    using that by (simp add: check_rendement_def)
  have p98: "prepare_features m
           = (Inl (KeyError ''rendement_estime n est pas present dans yield_history''), m',
              [Log_error ''Erreur lors de la preparation des caracteristiques''
                 (KeyError ''rendement_estime n est pas present dans yield_history'')])"
    if "reindex_dates m = (Inr (), m')" "merge_soil m' = Inr combined"
      "yield_history m' = Some yh" "''rendement_estime'' \<notin> set (col_names yh)"
    for m' combined yh
  proof -
    have "merge_tables m' = Inl (KeyError ''rendement_estime n est pas present dans yield_history'')"
      using that(2,3) l98[OF that(4)] by (simp add: merge_tables_def held_def)
    then show ?thesis by (rule prepare_features_Inl[OF that(1)])
  qed
  have p102: "prepare_features m
           = (Inl (KeyError ''rendement_estime n est pas present apres la fusion.''), m',
              [Log_error ''Erreur lors de la preparation des caracteristiques''
                 (KeyError ''rendement_estime n est pas present apres la fusion.'')])"
    if "reindex_dates m = (Inr (), m')" "merge_soil m' = Inr combined"
      "yield_history m' = Some yh" "yield_join combined yh = Inr joined"
      "''rendement_estime'' \<notin> set (col_names joined)"
    for m' combined yh joined
  proof -
    have "merge_tables m' = Inl (KeyError ''rendement_estime n est pas present apres la fusion.'')"
      using that(2,3,4) l102[OF that(5)] by (simp add: merge_tables_def held_def)
    then show ?thesis by (rule prepare_features_Inl[OF that(1)])
  qed
  have ok: "''rendement_estime'' \<in> set (col_names merged)" if "merge_tables m' = Inr merged"
    for m' merged
    using merge_tables_rendement[OF that] by blast
  have logged: "l = [Log_info ''Colonnes disponibles apres fusion'' (col_names t)]"
    if "prepare_features m = (Inr t, m', l)" for t m' l
    using that prepare_features_cases[of m] by auto
  show ?thesis
    using raised l98 l102 p98 p102 ok logged by blast
qed

lemma bind_err_weak_cong: "m = m' \<Longrightarrow> bind_err m f = bind_err m' f"
  by simp

lemmas eval_defs = prepare_features_def prepare_body_def reindex_dates_def step_def held_def
  reparse_date_def merge_soil_def yield_join_def check_rendement_def
  getitem_def get_loc_def col_names_def to_datetime_cell_def setitem_def set_index_def drop_nth_def
  merge_features_def merge_tables_def project_def numeric_columns_def monthly_mean_by_parcel_def
  monthly_mean_def List.map_filter_def days_in_month_def leap_year_def mean_cell_def
  month_end_of_ord_def sort_values_def merge_asof_def merged_columns_def other_positions_def
  same_dtype_def merge_left_def dropna_def fit_transform_def StandardScaler_def col_mean_def
  col_scale_def enumerate_eq_zip upt_rec

lemma prepare_features_one:
  "prepare_features mgr_one = (Inr features_one, mgr_one_after,
     [Log_info ''Colonnes disponibles apres fusion''
        [''date'', ''parcelle_id'', ''ndvi'', ''pluie'', ''ph'', ''rendement_estime'']])"
  by (simp add: eval_defs mgr_one_def mon_one_def wea_one_def soil_one_def yield_one_def
      features_one_def mgr_one_after_def mon_one_indexed_def wea_one_indexed_def
      cong: bind_err_weak_cong)

lemma prepare_features_one_again:
  "fst (prepare_features mgr_one_after) = Inl (KeyError ''date'')"
  by (simp add: eval_defs mgr_one_after_def mon_one_indexed_def cong: bind_err_weak_cong)

text \<open>
  Claim C3 as stated fails: a successful call replaces the held monitoring and weather
  tables by their date-indexed versions, and a second call on the manager it leaves
  raises \<open>KeyError: 'date'\<close> on line 58.
\<close>

theorem prepare_features_twice_counterexample:
  "fst (prepare_features mgr_one) = Inr features_one
   \<and> monitoring_data (fst (snd (prepare_features mgr_one))) \<noteq> monitoring_data mgr_one
   \<and> weather_data (fst (snd (prepare_features mgr_one))) \<noteq> weather_data mgr_one
   \<and> fst (prepare_features (fst (snd (prepare_features mgr_one)))) = Inl (KeyError ''date'')"
  by (simp add: prepare_features_one prepare_features_one_again)
     (simp add: mgr_one_after_def mgr_one_def mon_one_def mon_one_indexed_def wea_one_def
        wea_one_indexed_def)

lemma not_in_drop_nth:
  "distinct xs \<Longrightarrow> index_of x xs = Some j \<Longrightarrow> x \<notin> set (drop_nth j xs)"
proof -
  assume d: "distinct xs" and i: "index_of x xs = Some j"
  then have j: "j < length xs" "xs ! j = x" by (auto dest!: index_of_Some)
  have "xs = take j xs @ x # drop (Suc j) xs"
    using j id_take_nth_drop by blast
  then have "distinct (take j xs @ x # drop (Suc j) xs)" using d by simp
  then show ?thesis by (auto simp: drop_nth_def)
qed

lemma col_names_set_index:
  "set_index t n = Inr t' \<Longrightarrow> \<exists>j. index_of n (col_names t) = Some j \<and> col_names t' = drop_nth j (col_names t)"
  by (auto simp: set_index_def bind_err_Inr_iff col_names_def drop_nth_def take_map drop_map
      dest!: get_loc_Inr)

text \<open>
  Claim C3, as amended. A successful \<open>prepare_features\<close> computes its result from the held
  tables and leaves the manager with the monitoring and weather tables re-parsed and
  indexed by date, the yield history re-parsed, and the soil table as it was. Called
  again on that manager (whose monitoring header had distinct names) it raises
  \<open>KeyError: 'date'\<close>; the tables have to be loaded again first, as the dashboard does.
\<close>

theorem prepare_features_reindexes:
  assumes ok: "prepare_features m = (Inr t, m', l)"
  shows "\<exists>mon mon1 mon2 wea wea1 wea2 yh yh1.
           monitoring_data m = Some mon \<and> reparse_date mon = Inr mon1 \<and> set_index mon1 ''date'' = Inr mon2
         \<and> weather_data m = Some wea \<and> reparse_date wea = Inr wea1 \<and> set_index wea1 ''date'' = Inr wea2
         \<and> yield_history m = Some yh \<and> reparse_date yh = Inr yh1
         \<and> m' = m\<lparr>monitoring_data := Some mon2, weather_data := Some wea2, yield_history := Some yh1\<rparr>
         \<and> soil_data m' = soil_data m
         \<and> (distinct (col_names mon) \<longrightarrow> fst (prepare_features m') = Inl (KeyError ''date''))"
proof -
  have b: "prepare_body m = (Inr t, m')"
    using ok prepare_features_cases[of m] by auto
  note pb = prepare_body_Inr[OF b]
  from steps_prepare[OF conjunct1[OF pb]] obtain mon mon1 mon2 wea wea1 wea2 yh yh1 where f:
    "monitoring_data m = Some mon" "reparse_date mon = Inr mon1" "set_index mon1 ''date'' = Inr mon2"
    "weather_data m = Some wea" "reparse_date wea = Inr wea1" "set_index wea1 ''date'' = Inr wea2"
    "yield_history m = Some yh" "reparse_date yh = Inr yh1"
    "m' = m\<lparr>monitoring_data := Some mon2, weather_data := Some wea2, yield_history := Some yh1\<rparr>"
    by blast
  have again: "fst (prepare_features m') = Inl (KeyError ''date'')" if d: "distinct (col_names mon)"
  proof -
    obtain j where j: "index_of ''date'' (col_names mon1) = Some j"
      "col_names mon2 = drop_nth j (col_names mon1)"
      using col_names_set_index[OF f(3)] by blast
    have "col_names mon1 = col_names mon" by (rule col_names_reparse_date[OF f(2)])
    then have "''date'' \<notin> set (col_names mon2)"
      using not_in_drop_nth[of "col_names mon1" "''date''" j] d j by simp
    then have "reparse_date mon2 = Inl (KeyError ''date'')"
      by (simp add: reparse_date_def getitem_def get_loc_def index_of_None[symmetric])
    then have "fst (prepare_body m') = Inl (KeyError ''date'')"
      by (simp add: prepare_body_def reindex_dates_def step_def held_def f(9))
    then show ?thesis
      using prepare_features_cases[of m'] by auto
  qed
  show ?thesis
    using f again by (intro exI conjI) (assumption | simp)+
qed

theorem prepare_features_reindexes_witness:
  "monitoring_data (fst (snd (prepare_features mgr_one))) = Some mon_one_indexed
   \<and> weather_data (fst (snd (prepare_features mgr_one))) = Some wea_one_indexed
   \<and> soil_data (fst (snd (prepare_features mgr_one))) = Some soil_one
   \<and> fst (prepare_features (fst (snd (prepare_features mgr_one)))) = Inl (KeyError ''date'')"
  using prepare_features_reindexes[OF prepare_features_one]
  by (simp add: prepare_features_one)
     (auto simp: mgr_one_def mgr_one_after_def mon_one_def col_names_def)

text \<open>
  Claim C4 as stated also says that the error carries the column list of the table. It
  does not: the exception of line 98 is a KeyError with a fixed message, and two managers
  whose yield-history tables have different headers raise the same exception and log the
  same record.
\<close>

theorem prepare_features_error_context_counterexample:
  "fst (prepare_features mgr_a)
     = Inl (KeyError ''rendement_estime n est pas present dans yield_history'')
   \<and> snd (snd (prepare_features mgr_a))
     = [Log_error ''Erreur lors de la preparation des caracteristiques''
          (KeyError ''rendement_estime n est pas present dans yield_history'')]
   \<and> fst (prepare_features mgr_b) = fst (prepare_features mgr_a)
   \<and> snd (snd (prepare_features mgr_b)) = snd (snd (prepare_features mgr_a))
   \<and> col_names yield_a = [''parcelle_id'', ''date'', ''rendement'']
   \<and> col_names yield_b = [''parcelle_id'', ''date'']"
  by (simp add: eval_defs mgr_a_def mgr_b_def mon_one_def wea_one_def soil_one_def
      yield_a_def yield_b_def cong: bind_err_weak_cong)

lemma reindex_mgr_b: "reindex_dates mgr_b = (Inr (), mgr_b_after)"
  by (simp add: eval_defs mgr_b_def mgr_b_after_def mon_one_def wea_one_def yield_b_def
      mon_one_indexed_def wea_one_indexed_def cong: bind_err_weak_cong)

lemma merge_soil_mgr_b: "merge_soil mgr_b_after = Inr combined_one"
  by (simp add: eval_defs mgr_b_after_def mon_one_indexed_def wea_one_indexed_def soil_one_def
      combined_one_def cong: bind_err_weak_cong)

lemma reindex_mgr_c: "reindex_dates mgr_c = (Inr (), mgr_c_after)"
  by (simp add: eval_defs mgr_c_def mgr_c_after_def mon_one_def wea_one_def yield_one_def
      mon_one_indexed_def wea_one_indexed_def cong: bind_err_weak_cong)

lemma merge_soil_mgr_c: "merge_soil mgr_c_after = Inr combined_c"
  by (simp add: eval_defs mgr_c_after_def mon_one_indexed_def wea_one_indexed_def soil_r_def
      combined_c_def cong: bind_err_weak_cong)

lemma yield_join_mgr_c: "yield_join combined_c yield_one = Inr joined_c"
  by (simp add: eval_defs combined_c_def yield_one_def joined_c_def cong: bind_err_weak_cong)

theorem prepare_features_requires_rendement_witness:
  "prepare_features mgr_b
     = (Inl (KeyError ''rendement_estime n est pas present dans yield_history''), mgr_b_after,
        [Log_error ''Erreur lors de la preparation des caracteristiques''
           (KeyError ''rendement_estime n est pas present dans yield_history'')])
   \<and> yield_join combined_one yield_b
     = Inl (KeyError ''rendement_estime n est pas present dans yield_history'')
   \<and> check_rendement joined_c
     = Inl (KeyError ''rendement_estime n est pas present apres la fusion.'')
   \<and> prepare_features mgr_c
     = (Inl (KeyError ''rendement_estime n est pas present apres la fusion.''), mgr_c_after,
        [Log_error ''Erreur lors de la preparation des caracteristiques''
           (KeyError ''rendement_estime n est pas present apres la fusion.'')])"
proof -
  have yb: "yield_history mgr_b_after = Some yield_b"
    "''rendement_estime'' \<notin> set (col_names yield_b)"
    by (simp_all add: mgr_b_after_def yield_b_def col_names_def)
  have yc: "yield_history mgr_c_after = Some yield_one"
    "''rendement_estime'' \<notin> set (col_names joined_c)"
    by (simp_all add: mgr_c_after_def joined_c_def col_names_def)
  note b = prepare_features_requires_rendement[of mgr_b]
  note c = prepare_features_requires_rendement[of mgr_c]
  have 1: "prepare_features mgr_b
     = (Inl (KeyError ''rendement_estime n est pas present dans yield_history''), mgr_b_after,
        [Log_error ''Erreur lors de la preparation des caracteristiques''
           (KeyError ''rendement_estime n est pas present dans yield_history'')])"
    using b reindex_mgr_b merge_soil_mgr_b yb by blast
  have 2: "yield_join combined_one yield_b
     = Inl (KeyError ''rendement_estime n est pas present dans yield_history'')"
    using b yb(2) by blast
  have 3: "check_rendement joined_c
     = Inl (KeyError ''rendement_estime n est pas present apres la fusion.'')"
    using c yc(2) by blast
  have 4: "prepare_features mgr_c
     = (Inl (KeyError ''rendement_estime n est pas present apres la fusion.''), mgr_c_after,
        [Log_error ''Erreur lors de la preparation des caracteristiques''
           (KeyError ''rendement_estime n est pas present apres la fusion.'')])"
    using c reindex_mgr_c merge_soil_mgr_c yield_join_mgr_c yc by blast
  show ?thesis using 1 2 3 4 by blast
qed

text \<open>
  Claim C7 as stated fails: on monitoring and weather tables whose dates decrease,
  \<open>prepare_features\<close> returns a feature table, although the consistency check raises on
  the date-indexed tables the call leaves behind.
\<close>

theorem prepare_features_unsorted_counterexample:
  "monitoring_data mgr_two = Some mon_two
   \<and> getitem mon_two ''date'' = Inr (Datetime, [Date (2024, 2, 10), Date (2024, 1, 15)])
   \<and> fst (prepare_features mgr_two) = Inr features_two
   \<and> verify_temporal_consistency (fst (snd (prepare_features mgr_two)))
       = Inl (ValueError ''Les donnees de monitoring ne sont pas triees par date.'')"
  by (simp add: eval_defs mgr_two_def mon_two_def wea_two_def soil_one_def yield_one_def
      features_two_def verify_temporal_consistency_def attr_index_def is_monotonic_def
      cong: bind_err_weak_cong)

text \<open>
  Claim C7, as amended. The manager's consistency check \<open>_verify_temporal_consistency\<close>
  raises a ValueError whenever the index of the monitoring, weather or yield-history table
  is not monotonically non-decreasing, and returns normally otherwise. Feature preparation
  does not run it (see the counterexample): it sorts by date before each as-of merge.
\<close>

theorem verify_temporal_consistency_raises:
  assumes "monitoring_data m = Some mon" "weather_data m = Some wea" "yield_history m = Some yh"
  shows "(\<not> is_monotonic mon \<or> \<not> is_monotonic wea \<or> \<not> is_monotonic yh
            \<longrightarrow> (\<exists>msg. verify_temporal_consistency m = Inl (ValueError msg)))
       \<and> (is_monotonic mon \<and> is_monotonic wea \<and> is_monotonic yh
            \<longrightarrow> verify_temporal_consistency m = Inr ())"
  using assms by (auto simp: verify_temporal_consistency_def attr_index_def)

theorem verify_temporal_consistency_raises_witness:
  "\<not> is_monotonic mon_two_indexed
   \<and> (\<exists>msg. verify_temporal_consistency (mgr_two\<lparr>monitoring_data := Some mon_two_indexed\<rparr>)
         = Inl (ValueError msg))
   \<and> verify_temporal_consistency mgr_two = Inr ()"
  using verify_temporal_consistency_raises[of "mgr_two\<lparr>monitoring_data := Some mon_two_indexed\<rparr>"
      mon_two_indexed wea_two yield_one]
    verify_temporal_consistency_raises[of mgr_two mon_two wea_two yield_one]
  by (simp add: mgr_two_def is_monotonic_def mon_two_indexed_def mon_two_def wea_two_def yield_one_def)

lemma load_files_one: "load_data files_one new_manager = (Inr (), mgr_one)"
  by (simp add: load_data_def files_one_def new_manager_def mgr_one_def)

text \<open>
  Claim C5. After a successful preparation of the sources on a freshly built dashboard the
  filtered yield and NDVI sources are set, but the full sources are still \<open>None\<close>: nothing
  assigns them, unlike \<open>full_stress_source\<close> in \<open>create_stress_matrix\<close>. The yield
  callback, given that full source, throws.
\<close>

theorem full_sources_stay_none:
  "yield_source (fst (snd (dashboard_init files_one new_manager)))
     = Some [(''parcelle_id'', [Str ''P001'']), (''date'', [Date (2024, 1, 31)]),
             (''rendement_estime'', [Num 0])]
   \<and> ndvi_source (fst (snd (dashboard_init files_one new_manager)))
     = Some [(''parcelle_id'', [Str ''P001'']), (''date'', [Date (2024, 1, 31)]),
             (''ndvi'', [Num 0])]
   \<and> full_yield_source (fst (snd (dashboard_init files_one new_manager))) = None
   \<and> full_ndvi_source (fst (snd (dashboard_init files_one new_manager))) = None
   \<and> callback_yield (full_yield_source (fst (snd (dashboard_init files_one new_manager))))
        (yield_source (fst (snd (dashboard_init files_one new_manager)))) ''P001''
       = Threw (TypeError ''null'')"
  by (simp add: dashboard_init_def create_data_sources_def create_data_sources_body_def
      load_files_one[unfolded new_manager_def] new_manager_def prepare_features_one
      features_one_def required_columns_def col_names_def project_def get_loc_def dropna_def
      frame_empty_def ColumnDataSource_def enumerate_eq_zip upt_rec callback_yield_def
      cong: bind_err_weak_cong)

lemma rows_sort_values:
  "sort_values t n = Inr t' \<Longrightarrow> columns t' = columns t \<and> set (rows t') = set (rows t)"
  by (auto simp: sort_values_def bind_err_Inr_iff)

lemma rows_monthly_mean_by_parcel:
  assumes "monthly_mean_by_parcel t = Inr mm"
  shows "\<exists>n d labels dp rest. index t = Some (n, d, labels)
           \<and> columns mm = (n, Datetime) # (''parcelle_id'', dp) # rest
           \<and> (\<forall>r \<in> set (rows mm). \<exists>dt s cs. r = Date dt # Str s # cs)"
  using assms unfolding monthly_mean_by_parcel_def
  by (auto simp: bind_err_Inr_iff Let_def split: option.splits if_splits prod.splits)

lemma rows_merge_asof:
  assumes "merge_asof l r on by = Inr c"
  shows "columns c = merged_columns (columns l) (columns r)
                       (on # (case by of None \<Rightarrow> [] | Some b \<Rightarrow> [b]))
       \<and> (\<forall>row \<in> set (rows c). \<exists>lrow \<in> set (rows l). \<exists>ext. row = lrow @ ext)"
  using assms unfolding merge_asof_def
  by (auto simp: bind_err_Inr_iff Let_def split: option.splits if_splits prod.splits) blast+

lemma rows_merge_left:
  assumes "merge_left l s key = Inr c"
  shows "\<exists>jl js. get_loc l key = Inr jl \<and> get_loc s key = Inr js
       \<and> columns c = merged_columns (columns l) (columns s) [key]
       \<and> (\<forall>row \<in> set (rows c). \<exists>lrow \<in> set (rows l).
             row = lrow @ replicate (length (other_positions s [key])) Null
           \<or> (\<exists>srow \<in> set (rows s). srow ! js = lrow ! jl \<and> (\<exists>ext. row = lrow @ ext)))"
proof -
  obtain jl js where loc: "get_loc l key = Inr jl" "get_loc s key = Inr js"
    and c: "c = \<lparr>index = None,
            columns = merged_columns (columns l) (columns s) [key],
            rows = concat (map (\<lambda>l. if filter (\<lambda>r. r ! js = l ! jl) (rows s) = []
                         then [l @ replicate (length (other_positions s [key])) Null]
                         else map (\<lambda>r. l @ map (\<lambda>j. r ! j) (other_positions s [key]))
                               (filter (\<lambda>r. r ! js = l ! jl) (rows s)))
                 (rows l))\<rparr>"
    using assms unfolding merge_left_def
    by (auto simp: bind_err_Inr_iff Let_def split: if_splits)
  have "\<forall>row \<in> set (rows c). \<exists>lrow \<in> set (rows l).
             row = lrow @ replicate (length (other_positions s [key])) Null
           \<or> (\<exists>srow \<in> set (rows s). srow ! js = lrow ! jl \<and> (\<exists>ext. row = lrow @ ext))"
    unfolding c by (auto split: if_splits)
  then show ?thesis using loc c by auto
qed

lemma rows_dropna:
  "columns (dropna t) = columns t \<and> set (rows (dropna t)) = {r \<in> set (rows t). Null \<notin> set r}
   \<and> rows (dropna t) = filter (\<lambda>r. Null \<notin> set r) (rows t)"
  by (auto simp: dropna_def)

lemma transform_cell_Null: "transform_cell sc xs c = Null \<longleftrightarrow> c = Null"
  by (cases c) auto

lemma transform_cell_Str: "transform_cell sc xs (Str s) = Str s"
  by simp

lemma rows_fit_transform:
  assumes "fit_transform sc t = Inr t'"
  shows "columns t' = columns t \<and> length (rows t') = length (rows t)
       \<and> (\<forall>r' \<in> set (rows t'). \<exists>r \<in> set (rows t). length r' = length r
             \<and> (\<forall>j < length r. r' ! j = r ! j \<or> (\<exists>xs. r' ! j = transform_cell sc xs (r ! j))))"
proof -
  define f where "f = (\<lambda>j c. if snd (columns t ! j) = Number
                               then transform_cell sc (numbers (map (\<lambda>r'. r' ! j) (rows t))) c
                               else c)"
  have t': "t' = t\<lparr>rows := map (\<lambda>r. map2 f [0..<length r] r) (rows t)\<rparr>"
    using assms unfolding fit_transform_def f_def
    by (auto simp: Let_def enumerate_eq_zip split: if_splits)
  have "\<exists>r \<in> set (rows t). length r' = length r
             \<and> (\<forall>j < length r. r' ! j = r ! j \<or> (\<exists>xs. r' ! j = transform_cell sc xs (r ! j)))"
    if "r' \<in> set (rows t')" for r'
  proof -
    from that obtain r where r: "r \<in> set (rows t)" "r' = map2 f [0..<length r] r"
      unfolding t' by auto
    have *: "\<forall>j < length r. r' ! j = r ! j \<or> (\<exists>xs. r' ! j = transform_cell sc xs (r ! j))"
      using r(2) by (auto simp: f_def)
    have "length r' = length r" using r(2) by simp
    then show ?thesis using r(1) * by blast
  qed
  then show ?thesis using t' by auto
qed

lemma suffix_not_parcelle_id:
  "s @ ''_x'' \<noteq> ''parcelle_id''" "s @ ''_y'' \<noteq> ''parcelle_id''"
proof -
  have "rev (s @ ''_x'') \<noteq> rev ''parcelle_id''" "rev (s @ ''_y'') \<noteq> rev ''parcelle_id''"
    by simp_all
  then show "s @ ''_x'' \<noteq> ''parcelle_id''" "s @ ''_y'' \<noteq> ''parcelle_id''"
    by metis+
qed

lemma merged_columns_key:
  assumes "a \<noteq> ''parcelle_id''" "''parcelle_id'' \<in> set keys"
  shows "\<exists>a' rest'. merged_columns ((a, da) # (''parcelle_id'', dp) # rest) rcols keys
            = (a', da) # (''parcelle_id'', dp) # rest' \<and> a' \<noteq> ''parcelle_id''"
  using assms by (auto simp: merged_columns_def Let_def suffix_not_parcelle_id)

lemma merged_columns_parcel:
  assumes "a \<noteq> ''parcelle_id''"
    and "index_of ''parcelle_id''
           (map fst (merged_columns ((a, da) # (''parcelle_id'', dp) # rest) rcols keys)) = Some j"
  shows "j = 1 \<and> (\<exists>a' rest'. merged_columns ((a, da) # (''parcelle_id'', dp) # rest) rcols keys
            = (a', da) # (''parcelle_id'', dp) # rest' \<and> a' \<noteq> ''parcelle_id'')"
proof -
  define others where "others = filter (\<lambda>c. fst c \<notin> set keys) rcols"
  define overlap where "overlap = filter (\<lambda>n. n \<notin> set keys \<and> n \<in> set (map fst others))
                                     (a # ''parcelle_id'' # map fst rest)"
  define rx where "rx = (\<lambda>(n, d :: dtype). (if n \<in> set overlap then n @ ''_x'' else n, d))"
  define ry where "ry = (\<lambda>(n, d :: dtype). (if n \<in> set overlap then n @ ''_y'' else n, d))"
  have mc: "merged_columns ((a, da) # (''parcelle_id'', dp) # rest) rcols keys
          = rx (a, da) # rx (''parcelle_id'', dp) # map rx rest @ map ry others"
    by (simp add: merged_columns_def Let_def others_def overlap_def rx_def ry_def)
  have a': "fst (rx (a, da)) \<noteq> ''parcelle_id''" "snd (rx (a, da)) = da"
    using assms(1) by (auto simp: rx_def suffix_not_parcelle_id)
  show ?thesis
  proof (cases "''parcelle_id'' \<in> set overlap")
    case True
    have "''parcelle_id'' \<notin> fst ` set (map rx rest @ map ry others)"
      using True by (auto simp: rx_def ry_def suffix_not_parcelle_id split: if_splits)
    then have "index_of ''parcelle_id'' (map fst (map rx rest @ map ry others)) = None"
      by (simp add: index_of_None image_Un image_image)
    moreover have "fst (rx (''parcelle_id'', dp)) \<noteq> ''parcelle_id''"
      using True by (simp add: rx_def suffix_not_parcelle_id)
    ultimately have "index_of ''parcelle_id''
           (map fst (merged_columns ((a, da) # (''parcelle_id'', dp) # rest) rcols keys)) = None"
      using a' by (simp add: mc)
    then show ?thesis using assms(2) by simp
  next
    case False
    then have p: "rx (''parcelle_id'', dp) = (''parcelle_id'', dp)"
      by (simp add: rx_def)
    have "j = 1" using assms(2) a' by (simp add: mc p)
    moreover have "rx (a, da) = (fst (rx (a, da)), da)" using a'(2) by (cases "rx (a, da)") simp
    ultimately show ?thesis using a' p mc by metis
  qed
qed

lemma other_positions_nonempty:
  assumes "\<exists>n \<in> set (col_names s). n \<notin> set keys"
  shows "other_positions s keys \<noteq> []"
proof -
  from assms obtain j where "j < length (columns s)" "fst (columns s ! j) \<notin> set keys"
    by (auto simp: col_names_def in_set_conv_nth)
  then have "j \<in> set (other_positions s keys)" by (simp add: other_positions_def)
  then show ?thesis by auto
qed

lemma index_set_index: "set_index t n = Inr t' \<Longrightarrow> \<exists>d ls. index t' = Some (n, d, ls)"
  by (auto simp: set_index_def bind_err_Inr_iff)

lemma index_project: "project t ns = Inr t' \<Longrightarrow> index t' = index t"
  by (auto simp: project_def bind_err_Inr_iff)

lemma merge_tables_stages:
  assumes "merge_tables m = Inr c3"
  shows "\<exists>mon mon_sel mm l1 r1 c1 soil c2 l2 r2.
           monitoring_data m = Some mon
         \<and> project mon (numeric_columns mon @ [''parcelle_id'']) = Inr mon_sel
         \<and> monthly_mean_by_parcel mon_sel = Inr mm
         \<and> sort_values mm ''date'' = Inr l1
         \<and> merge_asof l1 r1 ''date'' None = Inr c1
         \<and> soil_data m = Some soil
         \<and> merge_left c1 soil ''parcelle_id'' = Inr c2
         \<and> sort_values c2 ''date'' = Inr l2
         \<and> merge_asof l2 r2 ''date'' (Some ''parcelle_id'') = Inr c3"
  using assms unfolding merge_tables_def merge_soil_def yield_join_def check_rendement_def
  by (auto simp: bind_err_Inr_iff held_def split: if_splits option.splits) blast

lemma merge_tables_parcels:
  assumes mt: "merge_tables m = Inr c3"
    and mon: "monitoring_data m = Some mon" "index mon = Some (''date'', d, ls)"
    and soil: "soil_data m = Some soil" "get_loc soil ''parcelle_id'' = Inr js"
  shows "(\<exists>a da dp rest. columns c3 = (a, da) # (''parcelle_id'', dp) # rest \<and> a \<noteq> ''parcelle_id'')
       \<and> (\<forall>r \<in> set (rows c3). \<exists>s. 2 \<le> length r \<and> r ! 1 = Str s
             \<and> (Null \<notin> set r \<and> (\<exists>n \<in> set (col_names soil). n \<noteq> ''parcelle_id'')
                  \<longrightarrow> (\<exists>sr \<in> set (rows soil). sr ! js = Str s)))"
proof -
  from merge_tables_stages[OF mt] mon(1) soil(1)
  obtain mon_sel mm l1 r1 c1 c2 l2 r2 where st:
    "project mon (numeric_columns mon @ [''parcelle_id'']) = Inr mon_sel"
    "monthly_mean_by_parcel mon_sel = Inr mm"
    "sort_values mm ''date'' = Inr l1"
    "merge_asof l1 r1 ''date'' None = Inr c1"
    "merge_left c1 soil ''parcelle_id'' = Inr c2"
    "sort_values c2 ''date'' = Inr l2"
    "merge_asof l2 r2 ''date'' (Some ''parcelle_id'') = Inr c3"
    by auto
  have ix: "index mon_sel = Some (''date'', d, ls)"
    using index_project[OF st(1)] mon(2) by simp
  from rows_monthly_mean_by_parcel[OF st(2)] ix
  obtain dp rest0 where mm:
    "columns mm = (''date'', Datetime) # (''parcelle_id'', dp) # rest0"
    "\<forall>r \<in> set (rows mm). \<exists>dt s cs. r = Date dt # Str s # cs"
    by auto
  note l1 = rows_sort_values[OF st(3)]
  note c1 = rows_merge_asof[OF st(4)]
  from rows_merge_left[OF st(5)] soil(2)
  obtain jl where c2:
    "get_loc c1 ''parcelle_id'' = Inr jl"
    "columns c2 = merged_columns (columns c1) (columns soil) [''parcelle_id'']"
    "\<forall>row \<in> set (rows c2). \<exists>lrow \<in> set (rows c1).
             row = lrow @ replicate (length (other_positions soil [''parcelle_id''])) Null
           \<or> (\<exists>srow \<in> set (rows soil). srow ! js = lrow ! jl \<and> (\<exists>ext. row = lrow @ ext))"
    by auto
  note l2 = rows_sort_values[OF st(6)]
  note c3 = rows_merge_asof[OF st(7)]
  have c1cols: "columns c1 = merged_columns ((''date'', Datetime) # (''parcelle_id'', dp) # rest0)
                  (columns r1) [''date'']"
    using c1 l1 mm(1) by simp
  have "index_of ''parcelle_id'' (map fst (merged_columns
          ((''date'', Datetime) # (''parcelle_id'', dp) # rest0) (columns r1) [''date''])) = Some jl"
    using get_loc_Inr[OF c2(1)] c1cols by (simp add: col_names_def)
  from merged_columns_parcel[OF _ this]
  obtain a1 rest1 where jl: "jl = 1"
    and c1shape: "columns c1 = (a1, Datetime) # (''parcelle_id'', dp) # rest1" "a1 \<noteq> ''parcelle_id''"
    using c1cols by auto
  from merged_columns_key[OF c1shape(2), of "[''parcelle_id'']" Datetime dp rest1 "columns soil"]
  obtain a2 rest2 where c2shape:
    "columns c2 = (a2, Datetime) # (''parcelle_id'', dp) # rest2" "a2 \<noteq> ''parcelle_id''"
    using c2(2) c1shape(1) by auto
  from merged_columns_key[OF c2shape(2), of "[''date'', ''parcelle_id'']" Datetime dp rest2 "columns r2"]
  obtain a3 rest3 where c3shape:
    "columns c3 = (a3, Datetime) # (''parcelle_id'', dp) # rest3" "a3 \<noteq> ''parcelle_id''"
    using c3 l2 c2shape(1) by auto
  have rows: "\<exists>s. 2 \<le> length r \<and> r ! 1 = Str s
             \<and> (Null \<notin> set r \<and> (\<exists>n \<in> set (col_names soil). n \<noteq> ''parcelle_id'')
                  \<longrightarrow> (\<exists>sr \<in> set (rows soil). sr ! js = Str s))"
    if r: "r \<in> set (rows c3)" for r
  proof -
    from c3 r obtain lrow2 ext3 where r2: "lrow2 \<in> set (rows l2)" "r = lrow2 @ ext3" by blast
    then have "lrow2 \<in> set (rows c2)" using l2 by simp
    with c2(3) obtain lrow1 where r1: "lrow1 \<in> set (rows c1)"
      and alt: "lrow2 = lrow1 @ replicate (length (other_positions soil [''parcelle_id''])) Null
           \<or> (\<exists>srow \<in> set (rows soil). srow ! js = lrow1 ! jl \<and> (\<exists>ext. lrow2 = lrow1 @ ext))"
      by blast
    from c1 r1 obtain lrow0 ext1 where r0: "lrow0 \<in> set (rows l1)" "lrow1 = lrow0 @ ext1" by blast
    then have "lrow0 \<in> set (rows mm)" using l1 by simp
    with mm(2) obtain dt s cs where s0: "lrow0 = Date dt # Str s # cs" by blast
    have s1: "lrow1 ! 1 = Str s" using r0(2) s0 by simp
    from alt obtain ext2 where e2: "lrow2 = lrow1 @ ext2" by blast
    have shape: "r = Date dt # Str s # (cs @ ext1 @ ext2 @ ext3)"
      using r2(2) e2 r0(2) s0 by simp
    have "\<exists>sr \<in> set (rows soil). sr ! js = Str s"
      if nn: "Null \<notin> set r" and ex: "\<exists>n \<in> set (col_names soil). n \<noteq> ''parcelle_id''"
    proof -
      have "other_positions soil [''parcelle_id''] \<noteq> []"
        using other_positions_nonempty[of soil "[''parcelle_id'']"] ex by simp
      then have "Null \<in> set (replicate (length (other_positions soil [''parcelle_id''])) Null)"
        by simp
      then have "lrow2 \<noteq> lrow1 @ replicate (length (other_positions soil [''parcelle_id''])) Null"
        using nn r2(2) by auto
      with alt show ?thesis using s1 jl by auto
    qed
    then show ?thesis using shape by auto
  qed
  show ?thesis using c3shape rows by blast
qed

lemma getitem_Inr:
  "getitem t n = Inr (d, cs) \<Longrightarrow> \<exists>j. get_loc t n = Inr j \<and> cs = map (\<lambda>r. r ! j) (rows t)"
  by (auto simp: getitem_def bind_err_Inr_iff)

text \<open>
  Claim C1, as amended. The table returned by \<open>prepare_features\<close> has no null in any
  column: it has as many rows as the merged table has rows without a null. When the soil
  table has a column besides \<open>parcelle_id\<close>, every parcel of the returned table is a parcel
  of the soil table, so that a parcel present in the monitoring data and absent from the
  soil table is not in the result.
\<close>

theorem prepare_features_no_nulls:
  assumes ok: "prepare_features m = (Inr t, m', l)"
  shows "(\<forall>r \<in> set (rows t). Null \<notin> set r)
       \<and> (\<exists>c. merge_tables m' = Inr c
              \<and> length (rows t) = length (filter (\<lambda>r. Null \<notin> set r) (rows c)))
       \<and> (\<forall>soil ds ids. soil_data m = Some soil \<and> getitem soil ''parcelle_id'' = Inr (ds, ids)
              \<and> (\<exists>n \<in> set (col_names soil). n \<noteq> ''parcelle_id'')
            \<longrightarrow> (\<exists>dp ps. getitem t ''parcelle_id'' = Inr (dp, ps) \<and> set ps \<subseteq> set ids))"
proof -
  have b: "prepare_body m = (Inr t, m')"
    using ok prepare_features_cases[of m] by auto
  note pb = prepare_body_Inr[OF b]
  from steps_prepare[OF conjunct1[OF pb]] obtain mon1 mon2 wea2 yh1 where f:
    "set_index mon1 ''date'' = Inr mon2"
    "m' = m\<lparr>monitoring_data := Some mon2, weather_data := Some wea2, yield_history := Some yh1\<rparr>"
    by blast
  have m': "monitoring_data m' = Some mon2" "soil_data m' = soil_data m"
    using f(2) by simp_all
  obtain d ls where ix: "index mon2 = Some (''date'', d, ls)"
    using index_set_index[OF f(1)] by blast
  obtain c where c: "merge_tables m' = Inr c" "fit_transform (scaler m') (dropna c) = Inr t"
    using pb by (auto simp: merge_features_def bind_err_Inr_iff)
  note ft = rows_fit_transform[OF c(2)]
  have src: "\<exists>r \<in> set (rows c). Null \<notin> set r \<and> length r' = length r
             \<and> (\<forall>j < length r. r' ! j = r ! j
                   \<or> (\<exists>xs. r' ! j = transform_cell (scaler m') xs (r ! j)))"
    if "r' \<in> set (rows t)" for r'
    using ft that by (auto simp: rows_dropna)
  have nonull: "Null \<notin> set r'" if r': "r' \<in> set (rows t)" for r'
  proof
    assume "Null \<in> set r'"
    then obtain j where j: "j < length r'" "r' ! j = Null" by (auto simp: in_set_conv_nth)
    from src[OF r'] obtain r where r: "Null \<notin> set r" "length r' = length r"
      "\<forall>j < length r. r' ! j = r ! j \<or> (\<exists>xs. r' ! j = transform_cell (scaler m') xs (r ! j))"
      by blast
    then have "r ! j = Null" using j by (auto simp: transform_cell_Null)
    then show False using r(1,2) j(1) by (metis nth_mem)
  qed
  have len: "length (rows t) = length (filter (\<lambda>r. Null \<notin> set r) (rows c))"
    using ft by (simp add: rows_dropna)
  have parcels: "\<exists>dp ps. getitem t ''parcelle_id'' = Inr (dp, ps) \<and> set ps \<subseteq> set ids"
    if soil: "soil_data m = Some soil" "getitem soil ''parcelle_id'' = Inr (ds, ids)"
      "\<exists>n \<in> set (col_names soil). n \<noteq> ''parcelle_id''" for soil ds ids
  proof -
    obtain js where js: "get_loc soil ''parcelle_id'' = Inr js" "ids = map (\<lambda>r. r ! js) (rows soil)"
      using getitem_Inr[OF soil(2)] by blast
    from merge_tables_parcels[OF c(1) m'(1) ix _ js(1)] soil(1) m'(2)
    obtain a da dp rest where cols: "columns c = (a, da) # (''parcelle_id'', dp) # rest"
        "a \<noteq> ''parcelle_id''"
      and rws: "\<forall>r \<in> set (rows c). \<exists>s. 2 \<le> length r \<and> r ! 1 = Str s
             \<and> (Null \<notin> set r \<and> (\<exists>n \<in> set (col_names soil). n \<noteq> ''parcelle_id'')
                  \<longrightarrow> (\<exists>sr \<in> set (rows soil). sr ! js = Str s))"
      by auto
    have "columns t = (a, da) # (''parcelle_id'', dp) # rest"
      using ft cols(1) by (simp add: rows_dropna)
    then have g: "getitem t ''parcelle_id'' = Inr (dp, map (\<lambda>r. r ! 1) (rows t))"
      using cols(2) by (simp add: getitem_def get_loc_def col_names_def)
    have "r' ! 1 \<in> set ids" if r': "r' \<in> set (rows t)" for r'
    proof -
      from src[OF r'] obtain r where r: "r \<in> set (rows c)" "Null \<notin> set r" "length r' = length r"
        "\<forall>j < length r. r' ! j = r ! j \<or> (\<exists>xs. r' ! j = transform_cell (scaler m') xs (r ! j))"
        by blast
      from rws r(1,2) soil(3) obtain s sr where s: "2 \<le> length r" "r ! 1 = Str s"
        "sr \<in> set (rows soil)" "sr ! js = Str s"
        by blast
      have "1 < length r" using s(1) by simp
      with r(4) have "r' ! 1 = r ! 1 \<or> (\<exists>xs. r' ! 1 = transform_cell (scaler m') xs (r ! 1))"
        by blast
      then have "r' ! 1 = Str s" using s(2) by auto
      then show ?thesis using s(3,4) js(2) by force
    qed
    then show ?thesis using g by auto
  qed
  show ?thesis using nonull c(1) len parcels by blast
qed

text \<open>
  Claim C1 as stated fails for a soil table that has the column \<open>parcelle_id\<close> only: the
  left join then adds no column, hence no null, and the row of a parcel that the soil
  table does not have stays in the result.
\<close>

theorem prepare_features_soil_counterexample:
  "fst (prepare_features mgr_bare) = Inr features_bare
   \<and> soil_data mgr_bare = Some soil_bare
   \<and> getitem soil_bare ''parcelle_id'' = Inr (Object, [Str ''P002''])
   \<and> getitem features_bare ''parcelle_id'' = Inr (Object, [Str ''P001''])"
  by (simp add: eval_defs mgr_bare_def mon_one_def wea_one_def soil_bare_def yield_one_def
      features_bare_def cong: bind_err_weak_cong)

lemma prepare_features_three: "fst (prepare_features mgr_three) = Inr features_one"
  by (simp add: eval_defs mgr_three_def mon_three_def wea_one_def soil_one_def yield_three_def
      features_one_def cong: bind_err_weak_cong)

theorem prepare_features_no_nulls_witness:
  "fst (prepare_features mgr_three) = Inr features_one
   \<and> getitem mon_three ''parcelle_id'' = Inr (Object, [Str ''P001'', Str ''P003''])
   \<and> getitem soil_one ''parcelle_id'' = Inr (Object, [Str ''P001''])
   \<and> getitem features_one ''parcelle_id'' = Inr (Object, [Str ''P001''])
   \<and> Null \<notin> set (concat (rows features_one))"
proof -
  have eq: "prepare_features mgr_three = (Inr features_one, fst (snd (prepare_features mgr_three)),
              snd (snd (prepare_features mgr_three)))"
    using prepare_features_three by (metis prod.collapse)
  have soil: "soil_data mgr_three = Some soil_one"
    "getitem soil_one ''parcelle_id'' = Inr (Object, [Str ''P001''])"
    "\<exists>n \<in> set (col_names soil_one). n \<noteq> ''parcelle_id''"
    by (simp_all add: mgr_three_def soil_one_def getitem_def get_loc_def col_names_def)
  from prepare_features_no_nulls[OF eq] soil
  obtain dp ps where "\<forall>r \<in> set (rows features_one). Null \<notin> set r"
    "getitem features_one ''parcelle_id'' = Inr (dp, ps)" "set ps \<subseteq> set [Str ''P001'']"
    by blast
  then show ?thesis
    using prepare_features_three soil(2)
    by (auto simp: mon_three_def features_one_def getitem_def get_loc_def col_names_def)
qed

lemma round_mantissa_numeral:
  "round_mantissa (numeral k) x =
     (if 2 ^ 53 \<le> x then 2 * round_mantissa (pred_numeral k) (x / 2)
      else if x < 2 ^ 52 then round_mantissa (pred_numeral k) (2 * x) / 2
      else of_int (round_half_even x))"
  by (simp add: numeral_eq_Suc)

lemmas float_defs = round_double_def double_tenth_def round_mantissa_numeral round_half_even_def

lemma round_half_even_of_int: "round_half_even (of_int k) = k"
  by (simp add: round_half_even_def)

lemma real_pow_cmp:
  "(2 :: real) ^ 53 \<le> of_int k \<longleftrightarrow> 2 ^ 53 \<le> k"
  "of_int k < (2 :: real) ^ 52 \<longleftrightarrow> k < 2 ^ 52"
proof -
  have a: "(2 :: real) ^ 53 = of_int (2 ^ 53)" and b: "(2 :: real) ^ 52 = of_int (2 ^ 52)"
    by simp_all
  show "(2 :: real) ^ 53 \<le> of_int k \<longleftrightarrow> 2 ^ 53 \<le> k"
    unfolding a by (rule of_int_le_iff)
  show "of_int k < (2 :: real) ^ 52 \<longleftrightarrow> k < 2 ^ 52"
    unfolding b by (rule of_int_less_iff)
qed

lemma round_mantissa_step:
  "round_mantissa (Suc n) (of_int k) =
     (if 2 ^ 53 \<le> k then 2 * round_mantissa n (of_int k / 2)
      else if k < 2 ^ 52 then round_mantissa n (of_int (2 * k)) / 2
      else of_int k)"
  unfolding round_mantissa.simps real_pow_cmp by (simp add: round_half_even_of_int)

lemma round_mantissa_of_int:
  "0 < k \<Longrightarrow> k < 2 ^ 53 \<Longrightarrow> 2 ^ 52 \<le> k * 2 ^ n \<Longrightarrow>
   round_mantissa (Suc n) (of_int k) = of_int k"
proof (induction n arbitrary: k)
  case 0
  then show ?case unfolding round_mantissa_step by simp
next
  case (Suc n)
  show ?case
  proof (cases "k < 2 ^ 52")
    case True
    have "round_mantissa (Suc n) (of_int (2 * k)) = of_int (2 * k)"
      using Suc.prems True by (intro Suc.IH) (auto simp: algebra_simps)
    then show ?thesis
      unfolding round_mantissa_step[of "Suc n"] using Suc.prems(2) True by simp
  next
    case False
    then show ?thesis
      unfolding round_mantissa_step[of "Suc n"] using Suc.prems(2) by simp
  qed
qed

lemma round_double_of_int:
  assumes "\<bar>k\<bar> < 2 ^ 53"
  shows "round_double (of_int k) = of_int k"
proof (cases "k = 0")
  case True
  then show ?thesis by (simp add: round_double_def)
next
  case False
  have s: "(2200 :: nat) = Suc 2199" by simp
  have pos: "0 < \<bar>k\<bar>" using False by simp
  have "(2 :: int) ^ 52 \<le> 1 * 2 ^ 2199" by (simp add: power_increasing)
  also have "\<dots> \<le> \<bar>k\<bar> * 2 ^ 2199" using pos by (intro mult_right_mono) auto
  finally have big: "(2 :: int) ^ 52 \<le> \<bar>k\<bar> * 2 ^ 2199" .
  have "round_mantissa (Suc 2199) (of_int \<bar>k\<bar>) = of_int \<bar>k\<bar>"
    by (rule round_mantissa_of_int[OF pos assms big])
  then have "round_mantissa 2200 \<bar>of_int k :: real\<bar> = \<bar>of_int k\<bar>"
    unfolding s by simp
  then show ?thesis
    using False by (simp add: round_double_def sgn_mult_abs del: round_mantissa.simps)
qed

lemma fbucket_five:
  "\<forall>t. \<bar>t\<bar> \<le> 10 ^ 15 \<longrightarrow> fbucket 5 (Num t) = Num (of_int \<lfloor>t / 5\<rfloor> * 5)"
proof (intro allI impI)
  fix t :: real assume t: "\<bar>t\<bar> \<le> 10 ^ 15"
  have "of_int \<lfloor>t / 5\<rfloor> \<le> t / 5" "t / 5 < of_int \<lfloor>t / 5\<rfloor> + 1" by linarith+
  then have "\<bar>of_int (\<lfloor>t / 5\<rfloor> * 5) :: real\<bar> \<le> 10 ^ 15 + 5" using t by simp linarith
  then have "\<bar>(of_int \<bar>\<lfloor>t / 5\<rfloor> * 5\<bar>) :: real\<bar> < of_int (2 ^ 53)" by simp
  then have "\<bar>\<lfloor>t / 5\<rfloor> * 5\<bar> < 2 ^ 53" using of_int_less_iff by (metis abs_of_nonneg abs_ge_zero of_int_nonneg)
  from round_double_of_int[OF this]
  show "fbucket 5 (Num t) = Num (of_int \<lfloor>t / 5\<rfloor> * 5)" by simp
qed

lemma stress_index_near:
  "\<forall>s. 0 \<le> s \<and> s \<le> 1000 \<longrightarrow>
      \<lfloor>10 * s\<rfloor> - 1 \<le> \<lfloor>s / double_tenth\<rfloor> \<and> \<lfloor>s / double_tenth\<rfloor> \<le> \<lfloor>10 * s\<rfloor>"
proof (intro allI impI)
  fix s :: real assume s: "0 \<le> s \<and> s \<le> 1000"
  have eq: "s / double_tenth = 10 * s - s * (2 / 3602879701896397)"
    by (simp add: double_tenth_def field_simps)
  have "0 \<le> s * (2 / 3602879701896397)" "s * (2 / 3602879701896397) < 1"
    using s by auto
  then have "10 * s - 1 < s / double_tenth" "s / double_tenth \<le> 10 * s"
    unfolding eq by linarith+
  then show "\<lfloor>10 * s\<rfloor> - 1 \<le> \<lfloor>s / double_tenth\<rfloor> \<and> \<lfloor>s / double_tenth\<rfloor> \<le> \<lfloor>10 * s\<rfloor>"
    by (simp add: floor_mono le_floor_iff) linarith
qed

lemma stress_index_within_one:
  "\<forall>s. \<bar>s\<bar> \<le> 1000 \<longrightarrow> \<bar>\<lfloor>s / double_tenth\<rfloor> - \<lfloor>10 * s\<rfloor>\<bar> \<le> 1"
proof (intro allI impI)
  fix s :: real assume s: "\<bar>s\<bar> \<le> 1000"
  have eq: "s / double_tenth = 10 * s - s * (2 / 3602879701896397)"
    by (simp add: double_tenth_def field_simps)
  have "\<bar>s * (2 / 3602879701896397)\<bar> < 1"
    using s by (simp add: abs_mult)
  then have "10 * s - 1 < s / double_tenth" "s / double_tenth < 10 * s + 1"
    unfolding eq by linarith+
  then show "\<bar>\<lfloor>s / double_tenth\<rfloor> - \<lfloor>10 * s\<rfloor>\<bar> \<le> 1"
    by linarith
qed

lemma series_fmul_floored:
  assumes "\<forall>c \<in> set cs. numeric_cell c"
  shows "series_fmul (d, map (floored_cell k) cs) k = Inr (d, map (fbucket k) cs)"
proof -
  have "sequence_err (map (fmul_cell k \<circ> floored_cell k) cs) = Inr (map (fbucket k) cs)"
  proof (rule sequence_err_map_Inr)
    fix c assume "c \<in> set cs"
    then have "numeric_cell c" using assms by blast
    then show "(fmul_cell k \<circ> floored_cell k) c = Inr (fbucket k c)" by (cases c) auto
  qed
  then show ?thesis by (simp add: series_fmul_def)
qed

text \<open>
  Claim C8, as amended. The binning step gives every temperature \<open>t\<close> of the feature table
  the bucket \<open>(t // 5) * 5\<close> and every hydric stress \<open>s\<close> the bucket \<open>(s // 0.1) * 0.1\<close>,
  both evaluated in double precision. For the temperature (up to \<open>10^15\<close> in magnitude)
  that is exactly \<open>\<lfloor>t / 5\<rfloor> * 5\<close>. For the stress the bucket index is the floor of
  \<open>s\<close> divided by the double nearest to 0.1: up to 1000 in magnitude it differs from
  \<open>\<lfloor>10 * s\<rfloor>\<close> by at most one, and for \<open>0 \<le> s\<close> it is \<open>\<lfloor>10 * s\<rfloor>\<close> or one less; the
  bucket stored is that index times the double 0.1, rounded. The double
  22.7 falls into bucket 20 and the double 0.37 into the bucket of index 3, stored as
  0.30000000000000004.
\<close>

theorem stress_bins_double:
  assumes jt: "get_loc f ''temperature'' = Inr jt"
    and js: "get_loc f ''stress_hydrique'' = Inr js"
    and num: "\<forall>r \<in> set (rows f). numeric_cell (r ! jt) \<and> numeric_cell (r ! js)"
    and wf: "wf_table f"
  shows "(\<exists>f'. create_stress_matrix_bins (Some f) = Inr (Some f')
           \<and> (\<exists>d. getitem f' ''temp_bin'' = Inr (d, map (\<lambda>r. fbucket 5 (r ! jt)) (rows f)))
           \<and> (\<exists>d. getitem f' ''stress_bin''
                     = Inr (d, map (\<lambda>r. fbucket double_tenth (r ! js)) (rows f))))
       \<and> (\<forall>t. \<bar>t\<bar> \<le> 10 ^ 15 \<longrightarrow> fbucket 5 (Num t) = Num (of_int \<lfloor>t / 5\<rfloor> * 5))
       \<and> (\<forall>s. 0 \<le> s \<and> s \<le> 1000 \<longrightarrow>
              \<lfloor>10 * s\<rfloor> - 1 \<le> \<lfloor>s / double_tenth\<rfloor> \<and> \<lfloor>s / double_tenth\<rfloor> \<le> \<lfloor>10 * s\<rfloor>)
       \<and> (\<forall>s. \<bar>s\<bar> \<le> 1000 \<longrightarrow> \<bar>\<lfloor>s / double_tenth\<rfloor> - \<lfloor>10 * s\<rfloor>\<bar> \<le> 1)"
proof -
  define dt where "dt = snd (columns f ! jt)"
  define ds where "ds = snd (columns f ! js)"
  define tb where "tb = (dt, map (\<lambda>r. fbucket 5 (r ! jt)) (rows f))"
  define sb where "sb = (ds, map (\<lambda>r. fbucket double_tenth (r ! js)) (rows f))"
  define f1 where "f1 = setitem f ''temp_bin'' tb"
  define f2 where "f2 = setitem f1 ''stress_bin'' sb"
  have gt: "getitem f ''temperature'' = Inr (dt, map (\<lambda>r. r ! jt) (rows f))"
    and gs: "getitem f ''stress_hydrique'' = Inr (ds, map (\<lambda>r. r ! js) (rows f))"
    using jt js by (simp_all add: getitem_def dt_def ds_def)
  have mem: "''temperature'' \<in> set (col_names f)" "''stress_hydrique'' \<in> set (col_names f)"
    using jt js by (auto dest!: get_loc_Inr index_of_Some_mem)
  have nt: "\<forall>c \<in> set (map (\<lambda>r. r ! jt) (rows f)). numeric_cell c"
    and ns: "\<forall>c \<in> set (map (\<lambda>r. r ! js) (rows f)). numeric_cell c"
    using num by auto
  have b1: "series_floordiv (dt, map (\<lambda>r. r ! jt) (rows f)) 5
              = Inr (dt, map (floored_cell 5) (map (\<lambda>r. r ! jt) (rows f)))"
    "series_fmul (dt, map (floored_cell 5) (map (\<lambda>r. r ! jt) (rows f))) 5 = Inr tb"
    using series_floordiv_numeric[OF nt] series_fmul_floored[OF nt] by (simp_all add: tb_def o_def)
  have b2: "series_floordiv (ds, map (\<lambda>r. r ! js) (rows f)) double_tenth
              = Inr (ds, map (floored_cell double_tenth) (map (\<lambda>r. r ! js) (rows f)))"
    "series_fmul (ds, map (floored_cell double_tenth) (map (\<lambda>r. r ! js) (rows f))) double_tenth = Inr sb"
    using series_floordiv_numeric[OF ns] series_fmul_floored[OF ns] by (simp_all add: sb_def o_def)
  have l1: "length (snd tb) = length (rows f)" by (simp add: tb_def)
  have wf1: "wf_table f1" unfolding f1_def by (rule wf_setitem[OF wf])
  have r1: "length (rows f1) = length (rows f)"
    unfolding f1_def by (rule length_rows_setitem[OF l1])
  have l2: "length (snd sb) = length (rows f1)" by (simp add: sb_def r1)
  have gs1: "getitem f1 ''stress_hydrique'' = Inr (ds, map (\<lambda>r. r ! js) (rows f))"
    unfolding f1_def using getitem_setitem_other[OF wf l1, of "''stress_hydrique''" "''temp_bin''"] gs
    by simp
  have res: "create_stress_matrix_bins (Some f) = Inr (Some f2)"
    unfolding create_stress_matrix_bins_def
    by (simp only: option.case mem simp_thms if_False gt bind_err.simps b1
        Let_def f1_def[symmetric] gs1 b2 f2_def[symmetric])
  have g1: "getitem f2 ''temp_bin'' = Inr tb"
    unfolding f2_def using getitem_setitem_other[OF wf1 l2, of "''temp_bin''" "''stress_bin''"]
      getitem_setitem_same[OF wf l1, of "''temp_bin''"] by (simp add: f1_def)
  have g2: "getitem f2 ''stress_bin'' = Inr sb"
    unfolding f2_def by (rule getitem_setitem_same[OF wf1 l2])
  have "\<exists>f'. create_stress_matrix_bins (Some f) = Inr (Some f')
           \<and> (\<exists>d. getitem f' ''temp_bin'' = Inr (d, map (\<lambda>r. fbucket 5 (r ! jt)) (rows f)))
           \<and> (\<exists>d. getitem f' ''stress_bin''
                     = Inr (d, map (\<lambda>r. fbucket double_tenth (r ! js)) (rows f)))"
    using res g1 g2 unfolding tb_def sb_def by blast
  then show ?thesis
    using fbucket_five stress_index_near stress_index_within_one by blast
qed

theorem stress_bins_double_witness:
  "\<exists>f'. create_stress_matrix_bins (Some bins_example) = Inr (Some f')
      \<and> (\<exists>d. getitem f' ''temp_bin'' = Inr (d, [Num 20]))
      \<and> (\<exists>d. getitem f' ''stress_bin'' = Inr (d, [Num (1351079888211149 / 4503599627370496)]))"
  using stress_bins_double[of bins_example 1 2]
  by (simp add: bins_example_def get_loc_def col_names_def wf_table_def float_defs)

text \<open>
  Claim C8 as stated says that the stress bucket is the floor to a multiple of 0.1. For
  the stress 0.5 that would be 0.5; the code stores the double 0.4, since 0.5 divided by
  the double 0.1 is just below 5.
\<close>

theorem stress_bins_floor_counterexample:
  "create_stress_matrix_bins (Some half_example)
     = Inr (Some \<lparr>index = None,
          columns = [(''parcelle_id'', Object), (''temperature'', Number),
                     (''stress_hydrique'', Number), (''temp_bin'', Number),
                     (''stress_bin'', Number)],
          rows = [[Str ''P001'', Num 25, Num (1 / 2), Num 25,
                   Num (3602879701896397 / 9007199254740992)]]\<rparr>)
   \<and> (3602879701896397 / 9007199254740992 :: real) < 1 / 2
   \<and> of_int \<lfloor>(1 / 2 :: real) / (1 / 10)\<rfloor> * (1 / 10) = (1 / 2 :: real)"
  by (simp add: create_stress_matrix_bins_def half_example_def getitem_def setitem_def
      get_loc_def col_names_def series_floordiv_def series_fmul_def float_defs
      cong: bind_err_weak_cong)

end
